theory Spec2Isabelle
  imports Complex_Main
begin

section \<open>Shared conventions\<close>

text \<open>
  The player is written in TypeScript. Its \<^verbatim>\<open>Assert.assert(cond)\<close> throws an
  \<^verbatim>\<open>AssertionError\<close> when assertions are enabled (the default of
  \<^verbatim>\<open>AssertConfig\<close>) and \<open>cond\<close> is falsy, and does nothing when the application
  has called \<^verbatim>\<open>AssertConfig.setEnabled(false)\<close>, as \<^verbatim>\<open>script.ts\<close> does. Every
  modelled function that asserts therefore takes the flag as its first argument.
  \<open>RepresentationNotSet\<close> is the \<^verbatim>\<open>Error\<close> thrown by the playback controller's
  getters before a representation has been selected, \<open>TypeError\<close> the property access
  on \<^verbatim>\<open>undefined\<close> or \<^verbatim>\<open>null\<close>.
\<close>

datatype error = AssertionError | RepresentationNotSet | TypeError | OutsideModel

definition Assert_assert :: "bool \<Rightarrow> bool \<Rightarrow> error + unit" where
  "Assert_assert enabled condition =
     (if enabled \<and> \<not> condition then Inl AssertionError else Inr ())"

section \<open>BlacklistController\<close>

text \<open>
  Two private arrays, one of URLs and one of segment numbers. Segment numbers are
  JavaScript numbers; the pipeline only ever passes integers.
\<close>

record BlacklistController =
  blacklistedUrls :: "string list"
  blacklistedSegmentNumbers :: "int list"

definition newBlacklistController :: BlacklistController where
  "newBlacklistController = \<lparr>blacklistedUrls = [], blacklistedSegmentNumbers = []\<rparr>"

definition addToUrlBlacklist ::
  "bool \<Rightarrow> string \<Rightarrow> BlacklistController \<Rightarrow> error + BlacklistController" where
  "addToUrlBlacklist enabled url s =
     (case Assert_assert enabled (length url > 0) of
        Inl e \<Rightarrow> Inl e
      | Inr _ \<Rightarrow>
          if url \<in> set (blacklistedUrls s) then Inr s
          else Inr (s\<lparr>blacklistedUrls := blacklistedUrls s @ [url]\<rparr>))"

definition addSegNumToBlacklist ::
  "bool \<Rightarrow> int \<Rightarrow> BlacklistController \<Rightarrow> error + BlacklistController" where
  "addSegNumToBlacklist enabled segNum s =
     (case Assert_assert enabled (segNum \<ge> 0) of
        Inl e \<Rightarrow> Inl e
      | Inr _ \<Rightarrow>
          if segNum \<in> set (blacklistedSegmentNumbers s) then Inr s
          else Inr (s\<lparr>blacklistedSegmentNumbers := blacklistedSegmentNumbers s @ [segNum]\<rparr>))"

text \<open>\<^verbatim>\<open>reset\<close> assigns the URL array twice; the source has no third statement.\<close>

definition blacklist_reset :: "BlacklistController \<Rightarrow> BlacklistController" where
  "blacklist_reset s = (s\<lparr>blacklistedUrls := []\<rparr>)\<lparr>blacklistedUrls := []\<rparr>"

definition containsUrl :: "bool \<Rightarrow> string \<Rightarrow> BlacklistController \<Rightarrow> error + bool" where
  "containsUrl enabled url s =
     (case Assert_assert enabled (length url > 0) of
        Inl e \<Rightarrow> Inl e
      | Inr _ \<Rightarrow> Inr (url \<in> set (blacklistedUrls s)))"

text \<open>
  \<^verbatim>\<open>containsSegmentNumber\<close> only asserts that its argument is defined, which every
  number is, so it cannot throw.
\<close>

definition containsSegmentNumber :: "int \<Rightarrow> BlacklistController \<Rightarrow> bool" where
  "containsSegmentNumber segNumb s = (segNumb \<in> set (blacklistedSegmentNumbers s))"

section \<open>JavaScript numbers\<close>

text \<open>
  A JavaScript number is a finite value, one of the two infinities, or NaN. The finite
  values are modelled as reals: rounding, overflow to an infinity and the sign of zero
  are not represented (a zero divisor is taken as \<open>+0\<close>). Comparisons with NaN are
  false, as in the language.
\<close>

datatype jsnum = Num real | PosInf | NegInf | NaN

fun js_isNaN :: "jsnum \<Rightarrow> bool" where
  "js_isNaN NaN = True"
| "js_isNaN _ = False"

fun js_isFinite :: "jsnum \<Rightarrow> bool" where
  "js_isFinite (Num _) = True"
| "js_isFinite _ = False"

fun js_lt :: "jsnum \<Rightarrow> jsnum \<Rightarrow> bool" where
  "js_lt NaN _ = False"
| "js_lt _ NaN = False"
| "js_lt (Num a) (Num b) = (a < b)"
| "js_lt NegInf NegInf = False"
| "js_lt NegInf _ = True"
| "js_lt _ NegInf = False"
| "js_lt PosInf _ = False"
| "js_lt _ PosInf = True"

definition js_gt :: "jsnum \<Rightarrow> jsnum \<Rightarrow> bool" where
  "js_gt a b = js_lt b a"

fun js_neg :: "jsnum \<Rightarrow> jsnum" where
  "js_neg (Num a) = Num (- a)"
| "js_neg PosInf = NegInf"
| "js_neg NegInf = PosInf"
| "js_neg NaN = NaN"

fun js_add :: "jsnum \<Rightarrow> jsnum \<Rightarrow> jsnum" where
  "js_add NaN _ = NaN"
| "js_add _ NaN = NaN"
| "js_add (Num a) (Num b) = Num (a + b)"
| "js_add PosInf NegInf = NaN"
| "js_add NegInf PosInf = NaN"
| "js_add PosInf _ = PosInf"
| "js_add _ PosInf = PosInf"
| "js_add NegInf _ = NegInf"
| "js_add _ NegInf = NegInf"

definition js_sub :: "jsnum \<Rightarrow> jsnum \<Rightarrow> jsnum" where
  "js_sub a b = js_add a (js_neg b)"

definition inf_of_sign :: "real \<Rightarrow> jsnum" where
  "inf_of_sign x = (if x = 0 then NaN else if x > 0 then PosInf else NegInf)"

fun js_mul :: "jsnum \<Rightarrow> jsnum \<Rightarrow> jsnum" where
  "js_mul NaN _ = NaN"
| "js_mul _ NaN = NaN"
| "js_mul (Num a) (Num b) = Num (a * b)"
| "js_mul (Num a) PosInf = inf_of_sign a"
| "js_mul (Num a) NegInf = inf_of_sign (- a)"
| "js_mul PosInf (Num b) = inf_of_sign b"
| "js_mul NegInf (Num b) = inf_of_sign (- b)"
| "js_mul PosInf PosInf = PosInf"
| "js_mul NegInf NegInf = PosInf"
| "js_mul PosInf NegInf = NegInf"
| "js_mul NegInf PosInf = NegInf"

fun js_div :: "jsnum \<Rightarrow> jsnum \<Rightarrow> jsnum" where
  "js_div NaN _ = NaN"
| "js_div _ NaN = NaN"
| "js_div (Num a) (Num b) = (if b = 0 then inf_of_sign a else Num (a / b))"
| "js_div (Num a) _ = Num 0"
| "js_div PosInf (Num b) = (if b \<ge> 0 then PosInf else NegInf)"
| "js_div NegInf (Num b) = (if b \<ge> 0 then NegInf else PosInf)"
| "js_div _ _ = NaN"

text \<open>
  \<^verbatim>\<open>Math.pow\<close>: an exponent of zero gives 1 for every base, NaN otherwise propagates,
  a negative finite base needs an integral exponent, and a base of magnitude 1 with an
  infinite exponent gives NaN.
\<close>

definition is_integral :: "real \<Rightarrow> bool" where
  "is_integral y = (y = of_int \<lfloor>y\<rfloor>)"

definition js_pow :: "jsnum \<Rightarrow> jsnum \<Rightarrow> jsnum" where
  "js_pow b e =
     (case e of
        NaN \<Rightarrow> NaN
      | Num y \<Rightarrow>
          if y = 0 then Num 1
          else (case b of
                  NaN \<Rightarrow> NaN
                | PosInf \<Rightarrow> if y > 0 then PosInf else Num 0
                | NegInf \<Rightarrow>
                    if y > 0 then (if is_integral y \<and> odd \<lfloor>y\<rfloor> then NegInf else PosInf)
                    else Num 0
                | Num x \<Rightarrow>
                    if x > 0 then Num (x powr y)
                    else if x = 0 then (if y > 0 then Num 0 else PosInf)
                    else if is_integral y then Num (power_int x \<lfloor>y\<rfloor>)
                    else NaN)
      | PosInf \<Rightarrow>
          (case b of
             NaN \<Rightarrow> NaN
           | Num x \<Rightarrow> if \<bar>x\<bar> > 1 then PosInf else if \<bar>x\<bar> = 1 then NaN else Num 0
           | _ \<Rightarrow> PosInf)
      | NegInf \<Rightarrow>
          (case b of
             NaN \<Rightarrow> NaN
           | Num x \<Rightarrow> if \<bar>x\<bar> > 1 then Num 0 else if \<bar>x\<bar> = 1 then NaN else PosInf
           | _ \<Rightarrow> Num 0))"

section \<open>Emwa and BandwidthEstimator\<close>

record Emwa =
  alpha :: jsnum
  estimate :: jsnum
  totalWeight :: jsnum

definition calculateAlpha :: "real \<Rightarrow> real" where
  "calculateAlpha halfLife = exp (ln 0.5 / halfLife)"

definition newEmwa :: "real \<Rightarrow> Emwa" where
  "newEmwa halfLife =
     \<lparr>alpha = Num (calculateAlpha halfLife), estimate = Num 0, totalWeight = Num 0\<rparr>"

definition Emwa_sample :: "bool \<Rightarrow> jsnum \<Rightarrow> jsnum \<Rightarrow> Emwa \<Rightarrow> error + Emwa" where
  "Emwa_sample enabled weight bandwidth e =
     (case Assert_assert enabled (js_gt (alpha e) (Num 0)) of
        Inl err \<Rightarrow> Inl err
      | Inr _ \<Rightarrow>
          let adjAlpha = js_pow (alpha e) weight;
              newEstimate = js_add (js_mul bandwidth (js_sub (Num 1) adjAlpha))
                                   (js_mul adjAlpha (estimate e))
          in if \<not> js_isNaN newEstimate
             then Inr (e\<lparr>estimate := newEstimate,
                        totalWeight := js_add (totalWeight e) weight\<rparr>)
             else Inr e)"

definition getEstimate :: "Emwa \<Rightarrow> jsnum" where
  "getEstimate e =
     (let zeroFactor = js_sub (Num 1) (js_pow (alpha e) (totalWeight e))
      in js_div (estimate e) zeroFactor)"

text \<open>
  The estimator's own fields. \<open>navDownlink\<close> stands for the browser's
  \<^verbatim>\<open>navigator.connection.downlink\<close>, absent when the API is.
\<close>

record BandwidthEstimator =
  fast :: Emwa
  slow :: Emwa
  useNetworkInformation :: bool
  navDownlink :: "real option"
  bytesSampled :: jsnum
  sampleCount :: jsnum

definition MIN_TOTAL_BYTES :: real where
  "MIN_TOTAL_BYTES = 128000"

definition MIN_BYTES :: real where
  "MIN_BYTES = 16000"

definition newBandwidthEstimator :: "bool \<Rightarrow> real option \<Rightarrow> BandwidthEstimator" where
  "newBandwidthEstimator useNet nav =
     \<lparr>fast = newEmwa 2, slow = newEmwa 5, useNetworkInformation = useNet,
      navDownlink = nav, bytesSampled = Num 0, sampleCount = Num 0\<rparr>"

text \<open>
  \<^verbatim>\<open>sample\<close> returns nothing; the model returns whether it threw together with the
  state it leaves behind, since the inner \<^verbatim>\<open>Emwa.sample\<close> asserts after the counters
  have been updated.
\<close>

definition BandwidthEstimator_sample ::
  "bool \<Rightarrow> jsnum \<Rightarrow> jsnum \<Rightarrow> BandwidthEstimator \<Rightarrow> (error + unit) \<times> BandwidthEstimator" where
  "BandwidthEstimator_sample enabled durationMs numBytes s =
     (case Assert_assert enabled (js_gt durationMs (Num 0) \<and> js_isFinite durationMs) of
        Inl err \<Rightarrow> (Inl err, s)
      | Inr _ \<Rightarrow>
     (case Assert_assert enabled (js_gt numBytes (Num 0) \<and> js_isFinite numBytes) of
        Inl err \<Rightarrow> (Inl err, s)
      | Inr _ \<Rightarrow>
          if js_lt numBytes (Num MIN_BYTES) then (Inr (), s)
          else
            let s1 = s\<lparr>sampleCount := js_add (sampleCount s) (Num 1)\<rparr>;
                bandwidth = js_div (js_mul (Num 8000) numBytes) durationMs;
                weight = js_div durationMs (Num 1000);
                s2 = s1\<lparr>bytesSampled := js_add (bytesSampled s1) numBytes\<rparr>
            in (case Emwa_sample enabled weight bandwidth (fast s2) of
                  Inl err \<Rightarrow> (Inl err, s2)
                | Inr f \<Rightarrow>
                    (case Emwa_sample enabled weight bandwidth (slow s2) of
                       Inl err \<Rightarrow> (Inl err, s2\<lparr>fast := f\<rparr>)
                     | Inr sl \<Rightarrow> (Inr (), s2\<lparr>fast := f, slow := sl\<rparr>)))))"

definition BandwidthEstimator_reset :: "BandwidthEstimator \<Rightarrow> BandwidthEstimator" where
  "BandwidthEstimator_reset s = s\<lparr>sampleCount := Num 0, bytesSampled := Num 0\<rparr>"

section \<open>Representations and the segment index\<close>

text \<open>
  A segment reference carries its number and its time interval; the URL callback plays
  no part here. \<^verbatim>\<open>SegmentIndex.references\<close> is the list itself.
\<close>

record SegmentReference =
  ref_segmentNumber :: int
  ref_startTime :: real
  ref_endTime :: real

record Representation =
  rep_id :: string
  rep_bitrate :: real
  rep_segmentIndex :: "SegmentReference list"

datatype AbrStrategyType = Bandwidth | Buffer | DroppedFrames

text \<open>The events of the bus that the modelled methods trigger, with their payloads.\<close>

datatype event =
    BUFFER_TARGET_CHANGED real
  | BUFFER_LEVEL_UPDATED real
  | QUALITY_CHANGE_REQUESTED Representation AbrStrategyType

text \<open>
  The binary search of \<^verbatim>\<open>getSegmentAtTime\<close>: it returns the reference found, or the
  final value of \<open>left\<close> when the loop ends without one.
\<close>

function bsearch ::
  "SegmentReference list \<Rightarrow> real \<Rightarrow> int \<Rightarrow> int \<Rightarrow> SegmentReference option \<times> int" where
  "bsearch refs time left right =
     (if left \<le> right then
        (let mid = (left + right) div 2; ref = refs ! nat mid
         in if time \<ge> ref_startTime ref \<and> time < ref_endTime ref then (Some ref, left)
            else if time < ref_startTime ref then bsearch refs time left (mid - 1)
            else bsearch refs time (mid + 1) right)
      else (None, left))"
  by pat_completeness auto
termination
  by (relation "measure (\<lambda>(refs, time, left, right). nat (right - left + 1))") auto

definition getSegmentAtTime :: "SegmentReference list \<Rightarrow> real \<Rightarrow> SegmentReference option" where
  "getSegmentAtTime refs time =
     (case bsearch refs time 0 (int (length refs) - 1) of
        (Some ref, _) \<Rightarrow> Some ref
      | (None, left) \<Rightarrow> if left < int (length refs) then Some (refs ! nat left) else None)"

text \<open>
  \<^verbatim>\<open>indexOf\<close> compares object identity; references of one index differ in their
  segment numbers, so equality of values finds the same position.
\<close>

fun indexOf :: "'a list \<Rightarrow> 'a \<Rightarrow> nat option" where
  "indexOf [] x = None"
| "indexOf (y # ys) x = (if y = x then Some 0 else map_option Suc (indexOf ys x))"

definition getNextSegment ::
  "SegmentReference list \<Rightarrow> SegmentReference \<Rightarrow> SegmentReference option" where
  "getNextSegment refs currentSegment =
     (case indexOf refs currentSegment of
        None \<Rightarrow> None
      | Some currentIndex \<Rightarrow>
          if currentIndex + 1 < length refs then Some (refs ! (currentIndex + 1)) else None)"

section \<open>BufferController: the segment pipeline\<close>

record BufferRange =
  range_start :: real
  range_end :: real

record DownloadTask =
  dt_segmentNumber :: int
  dt_url :: string
  dt_representationId :: string
  dt_startTime :: real
  dt_isReplacement :: bool
  dt_replacingSegment :: "int option"

record QueuedSegment =
  qs_segmentNumber :: int
  qs_byteLength :: nat
  qs_duration :: real
  qs_representationId :: string
  qs_bitrate :: real
  qs_bytes :: real

record ReplacementTask =
  rt_segmentNumber :: int
  rt_byteLength :: nat
  rt_representationId :: string

record BufferedSegmentInfo =
  bsi_segmentNumber :: int
  bsi_startTime :: real
  bsi_endTime :: real
  bsi_representationId :: string
  bsi_bitrate :: real
  bsi_bytes :: real

text \<open>The media sink as the controller sees it: busy or idle, and its buffered ranges.\<close>

record SourceBuffer =
  updating :: bool
  buffered :: "BufferRange list"

datatype MediaType = Video | Audio

text \<open>
  The controller's private fields. A \<^verbatim>\<open>Map\<close> is an association list in insertion
  order; \<open>criticalLevel = None\<close> is the initial \<^verbatim>\<open>NaN\<close>. Of \<^verbatim>\<open>#config\<close> only
  \<^verbatim>\<open>bufferingTarget\<close> is ever assigned after construction; the other entries read
  here are constants.
\<close>

definition bufferBehind :: real where
  "bufferBehind = 5"

definition quotaExceededCorrectionFactor :: real where
  "quotaExceededCorrectionFactor = 0.8"

definition fastSwitchingEnabled :: bool where
  "fastSwitchingEnabled = True"

definition replacementSafetyFactor :: real where
  "replacementSafetyFactor = 1.5"

record BufferController =
  bufferingTarget :: real
  level :: real
  criticalLevel :: "real option"
  lastUpdateTime :: real
  downloadPipeline :: "(int \<times> DownloadTask) list"
  appendQueue :: "QueuedSegment list"
  appendQueueDuration :: real
  nextSegmentToAppend :: "int option"
  nextSegmentToDownload :: "int option"
  replacementQueue :: "ReplacementTask list"
  isProcessingReplacement :: bool
  replacementsInProgress :: "int list"
  bufferedSegments :: "(int \<times> BufferedSegmentInfo) list"
  currentRepresentationBitrate :: real
  sourceBuffer :: "SourceBuffer option"
  mediaType :: MediaType
  isProcessingQueue :: bool
  quotaExceededInProgress :: bool

definition newBufferController :: "MediaType \<Rightarrow> BufferController" where
  "newBufferController t =
     \<lparr>bufferingTarget = 60, level = 0, criticalLevel = None, lastUpdateTime = 0,
      downloadPipeline = [], appendQueue = [], appendQueueDuration = 0,
      nextSegmentToAppend = None, nextSegmentToDownload = None,
      replacementQueue = [], isProcessingReplacement = False, replacementsInProgress = [],
      bufferedSegments = [], currentRepresentationBitrate = 0,
      sourceBuffer = None, mediaType = t,
      isProcessingQueue = False, quotaExceededInProgress = False\<rparr>"

text \<open>
  What the controller reads from its collaborators during one call: the clock, the
  playhead, the playback controller's current representations, and the sink's answer to
  \<^verbatim>\<open>remove(start, end)\<close> (the ranges it reports once the removal has ended).
\<close>

record Env =
  env_now :: real
  env_currentTime :: real
  env_currentVideoRepresentation :: "Representation option"
  env_currentAudioRepresentation :: "Representation option"
  env_sinkRemove :: "real \<Rightarrow> real \<Rightarrow> BufferRange list \<Rightarrow> BufferRange list"

definition SMALL_GAP_LIMIT :: real where
  "SMALL_GAP_LIMIT = 1.5"

definition JUMP_LARGER_GAPS :: bool where
  "JUMP_LARGER_GAPS = True"

text \<open>\<^verbatim>\<open>#MAX_REASONABLE_GAP\<close> is read once from the initial configuration.\<close>

definition MAX_REASONABLE_GAP :: real where
  "MAX_REASONABLE_GAP = 60"

definition getAllBufferRanges :: "BufferController \<Rightarrow> BufferRange list" where
  "getAllBufferRanges s = (case sourceBuffer s of None \<Rightarrow> [] | Some sb \<Rightarrow> buffered sb)"

text \<open>
  \<^verbatim>\<open>playbackController.getCurrentVideoRepresentation()\<close> throws when nothing has been
  selected yet.
\<close>

definition getCurrentRepresentation :: "Env \<Rightarrow> BufferController \<Rightarrow> error + Representation" where
  "getCurrentRepresentation env s =
     (case (case mediaType s of
              Video \<Rightarrow> env_currentVideoRepresentation env
            | Audio \<Rightarrow> env_currentAudioRepresentation env) of
        None \<Rightarrow> Inl RepresentationNotSet
      | Some rep \<Rightarrow> Inr rep)"

definition overlapsRange :: "BufferedSegmentInfo \<Rightarrow> BufferRange \<Rightarrow> bool" where
  "overlapsRange segInfo rng =
     (bsi_startTime segInfo < range_end rng \<and> bsi_endTime segInfo > range_start rng)"

definition syncSegmentTrackingWithBuffer :: "BufferController \<Rightarrow> BufferController" where
  "syncSegmentTrackingWithBuffer s =
     (let ranges = getAllBufferRanges s
      in s\<lparr>bufferedSegments :=
             filter (\<lambda>(segNum, segInfo). list_ex (overlapsRange segInfo) ranges)
                    (bufferedSegments s)\<rparr>)"

definition isBeingReplaced :: "BufferController \<Rightarrow> BufferedSegmentInfo \<Rightarrow> bool" where
  "isBeingReplaced s segment =
     list_ex (\<lambda>(k, task). dt_isReplacement task
                \<and> dt_replacingSegment task = Some (bsi_segmentNumber segment))
             (downloadPipeline s)"

text \<open>
  The callback of the \<^verbatim>\<open>forEach\<close> in \<^verbatim>\<open>#findReplaceableSegments\<close>, entry by entry: the
  first component collects the map entries that survive, the second the candidates.
\<close>

fun scanBuffered ::
  "BufferController \<Rightarrow> real \<Rightarrow> real \<Rightarrow> (int \<times> BufferedSegmentInfo) list
     \<Rightarrow> (int \<times> BufferedSegmentInfo) list \<times> BufferedSegmentInfo list" where
  "scanBuffered s currentTime threshold [] = ([], [])"
| "scanBuffered s currentTime threshold ((segNum, segment) # rest) =
     (let (kept, replaceable) = scanBuffered s currentTime threshold rest
      in if bsi_endTime segment < currentTime then (kept, replaceable)
         else if bsi_startTime segment < threshold then ((segNum, segment) # kept, replaceable)
         else if bsi_bitrate segment \<ge> currentRepresentationBitrate s
           then ((segNum, segment) # kept, replaceable)
         else if isBeingReplaced s segment then ((segNum, segment) # kept, replaceable)
         else ((segNum, segment) # kept, segment # replaceable))"

text \<open>The segment duration is the literal 3 of the source.\<close>

definition findReplaceableSegments ::
  "Env \<Rightarrow> BufferController \<Rightarrow> error + (BufferedSegmentInfo list \<times> BufferController)" where
  "findReplaceableSegments env s =
     (let currentTime = env_currentTime env
      in case getCurrentRepresentation env s of
           Inl e \<Rightarrow> Inl e
         | Inr rep \<Rightarrow>
             let segmentDuration = 3;
                 safeReplacementThreshold =
                   currentTime + segmentDuration * replacementSafetyFactor;
                 (kept, replaceable) =
                   scanBuffered s currentTime safeReplacementThreshold (bufferedSegments s)
             in Inr (sort_key bsi_startTime replaceable, s\<lparr>bufferedSegments := kept\<rparr>))"

definition shouldDownloadReplacement ::
  "Env \<Rightarrow> BufferController \<Rightarrow> error + (BufferedSegmentInfo option \<times> BufferController)" where
  "shouldDownloadReplacement env s =
     (if \<not> fastSwitchingEnabled then Inr (None, s)
      else case findReplaceableSegments env s of
             Inl e \<Rightarrow> Inl e
           | Inr (replaceableSegments, s') \<Rightarrow>
               Inr (case replaceableSegments of [] \<Rightarrow> None | seg # _ \<Rightarrow> Some seg, s'))"

subsection \<open>Buffer level\<close>

text \<open>
  The loop of \<^verbatim>\<open>#calculateEffectiveBufferLevel\<close> over the future ranges; leaving the
  recursion early is the \<^verbatim>\<open>break\<close>.
\<close>

fun effectiveLoop :: "BufferRange list \<Rightarrow> real \<Rightarrow> real \<Rightarrow> real" where
  "effectiveLoop [] effectiveLevel lastIncludedEnd = effectiveLevel"
| "effectiveLoop (r # rs) effectiveLevel lastIncludedEnd =
     (let gap = range_start r - lastIncludedEnd
      in if gap > 0 then
           (if gap \<le> SMALL_GAP_LIMIT \<or> (JUMP_LARGER_GAPS \<and> gap \<le> MAX_REASONABLE_GAP) then
              (if gap < bufferBehind * 2 \<or> gap \<le> SMALL_GAP_LIMIT
               then effectiveLoop rs (effectiveLevel + gap + (range_end r - range_start r))
                      (range_end r)
               else effectiveLevel)
            else effectiveLevel)
         else effectiveLoop rs (effectiveLevel + (range_end r - range_start r)) (range_end r))"

definition calculateEffectiveBufferLevel :: "Env \<Rightarrow> BufferController \<Rightarrow> real" where
  "calculateEffectiveBufferLevel env s =
     (case sourceBuffer s of
        None \<Rightarrow> 0
      | Some sb \<Rightarrow>
          let ranges = buffered sb; currentTime = env_currentTime env;
              futureRanges =
                map (\<lambda>r. \<lparr>range_start = max (range_start r) currentTime, range_end = range_end r\<rparr>)
                    (filter (\<lambda>r. range_end r > currentTime) ranges)
          in if ranges = [] then 0
             else if futureRanges = [] then 0
             else max 0 (min (effectiveLoop futureRanges 0 currentTime)
                             (bufferingTarget s * 1.5)))"

definition updateBufferLevel :: "Env \<Rightarrow> BufferController \<Rightarrow> BufferController \<times> event list" where
  "updateBufferLevel env s =
     (case sourceBuffer s of
        None \<Rightarrow> (s, [])
      | Some sb \<Rightarrow>
          let bufferLevel = calculateEffectiveBufferLevel env s
          in (s\<lparr>level := bufferLevel, lastUpdateTime := env_now env\<rparr>,
              if mediaType s = Video then [BUFFER_LEVEL_UPDATED bufferLevel] else []))"

subsection \<open>Quota-exceeded recovery\<close>

text \<open>
  \<^verbatim>\<open>#removeBufferRange\<close> on the sink's current ranges: nothing is asked of the sink
  for an empty interval or one that meets no buffered range.
\<close>

definition removeBufferRange :: "Env \<Rightarrow> real \<Rightarrow> real \<Rightarrow> BufferRange list \<Rightarrow> BufferRange list" where
  "removeBufferRange env start end' ranges =
     (if start \<ge> end' then ranges
      else if \<not> list_ex (\<lambda>r. start < range_end r \<and> end' > range_start r) ranges then ranges
      else env_sinkRemove env start end' ranges)"

text \<open>
  The \<^verbatim>\<open>for\<close> loop of \<^verbatim>\<open>#removeExcessBufferDataWithTracking\<close> over the ranges read
  before any removal; \<open>cur\<close> is what the sink holds at that point. \<open>keepEnd\<close> is
  \<open>None\<close> when the critical level is still NaN, and every comparison with it is false.
\<close>

definition lt_opt :: "real \<Rightarrow> real option \<Rightarrow> bool" where
  "lt_opt x k = (case k of None \<Rightarrow> False | Some v \<Rightarrow> x < v)"

definition gt_opt :: "real \<Rightarrow> real option \<Rightarrow> bool" where
  "gt_opt x k = (case k of None \<Rightarrow> False | Some v \<Rightarrow> x > v)"

definition ge_opt :: "real \<Rightarrow> real option \<Rightarrow> bool" where
  "ge_opt x k = (case k of None \<Rightarrow> False | Some v \<Rightarrow> x \<ge> v)"

fun removalLoop ::
  "Env \<Rightarrow> real \<Rightarrow> real option \<Rightarrow> BufferRange list \<Rightarrow> BufferRange list \<Rightarrow> BufferRange list" where
  "removalLoop env keepStart keepEnd [] cur = cur"
| "removalLoop env keepStart keepEnd (r # rs) cur =
     (if range_end r \<le> keepStart then
        removalLoop env keepStart keepEnd rs
          (if range_start r \<ge> 0 \<and> range_end r > range_start r
           then removeBufferRange env (range_start r) (range_end r) cur else cur)
      else if ge_opt (range_start r) keepEnd then
        removalLoop env keepStart keepEnd rs
          (if range_start r \<ge> 0 \<and> range_end r > range_start r
           then removeBufferRange env (range_start r) (range_end r) cur else cur)
      else if range_start r < keepStart \<and> range_end r > keepStart then
        removalLoop env keepStart keepEnd rs
          (if range_start r \<ge> 0 \<and> min keepStart (range_end r) > range_start r
           then removeBufferRange env (range_start r) (min keepStart (range_end r)) cur else cur)
      else if lt_opt (range_start r) keepEnd \<and> gt_opt (range_end r) keepEnd then
        (case keepEnd of
           None \<Rightarrow> removalLoop env keepStart keepEnd rs cur
         | Some ke \<Rightarrow>
             removalLoop env keepStart keepEnd rs
               (if max ke (range_start r) \<ge> 0 \<and> range_end r > max ke (range_start r)
                then removeBufferRange env (max ke (range_start r)) (range_end r) cur else cur))
      else if range_start r < keepStart \<and> gt_opt (range_end r) keepEnd then
        (case keepEnd of
           None \<Rightarrow> removalLoop env keepStart keepEnd rs cur
         | Some ke \<Rightarrow>
             let cur1 = removeBufferRange env (range_start r) keepStart cur
             in removalLoop env keepStart keepEnd rs
                  (if ke \<ge> 0 \<and> range_end r > ke
                   then removeBufferRange env ke (range_end r) cur1 else cur1))
      else removalLoop env keepStart keepEnd rs cur)"

definition removeExcessBufferDataWithTracking :: "Env \<Rightarrow> BufferController \<Rightarrow> BufferController" where
  "removeExcessBufferDataWithTracking env s =
     (case sourceBuffer s of
        None \<Rightarrow> s
      | Some sb \<Rightarrow>
          if updating sb then s
          else
            let currentTime = env_currentTime env;
                newTargetLevel = criticalLevel s;
                bufferBehind' = min bufferBehind 2;
                keepStart = max 0 (currentTime - bufferBehind');
                keepEnd = map_option (\<lambda>c. currentTime + c) newTargetLevel;
                rangesBefore = buffered sb;
                segmentsToRemove =
                  map fst (filter (\<lambda>(segNum, segInfo).
                                     bsi_endTime segInfo \<le> keepStart
                                     \<or> ge_opt (bsi_startTime segInfo) keepEnd)
                                  (bufferedSegments s));
                rangesAfter = removalLoop env keepStart keepEnd rangesBefore rangesBefore
            in s\<lparr>sourceBuffer := Some (sb\<lparr>buffered := rangesAfter\<rparr>),
                 bufferedSegments :=
                   filter (\<lambda>(segNum, segInfo). segNum \<notin> set segmentsToRemove)
                          (bufferedSegments s)\<rparr>)"

text \<open>The search for the closest future range, \<open>None\<close> standing for the initial Infinity.\<close>

fun closestFutureRange ::
  "real \<Rightarrow> BufferRange list \<Rightarrow> real option \<Rightarrow> BufferRange option \<Rightarrow> BufferRange option" where
  "closestFutureRange currentTime [] minDistance targetRange = targetRange"
| "closestFutureRange currentTime (r # rs) minDistance targetRange =
     (if range_start r > currentTime then
        (let distance = range_start r - currentTime
         in if (case minDistance of None \<Rightarrow> True | Some m \<Rightarrow> distance < m)
            then closestFutureRange currentTime rs (Some distance) (Some r)
            else closestFutureRange currentTime rs minDistance targetRange)
      else closestFutureRange currentTime rs minDistance targetRange)"

definition setSegmentPointers :: "int option \<Rightarrow> BufferController \<Rightarrow> BufferController" where
  "setSegmentPointers n s = s\<lparr>nextSegmentToDownload := n, nextSegmentToAppend := n\<rparr>"

definition resetSegmentPointersAfterQuotaExceeded ::
  "Env \<Rightarrow> BufferController \<Rightarrow> error + BufferController" where
  "resetSegmentPointersAfterQuotaExceeded env s =
     (let currentTime = env_currentTime env; ranges = getAllBufferRanges s
      in case getCurrentRepresentation env s of
           Inl e \<Rightarrow> Inl e
         | Inr rep \<Rightarrow>
             let refs = rep_segmentIndex rep
             in if ranges = [] then
                  (case getSegmentAtTime refs currentTime of
                     Some segment \<Rightarrow> Inr (setSegmentPointers (Some (ref_segmentNumber segment)) s)
                   | None \<Rightarrow> Inr s)
                else
                  (case (case find (\<lambda>r. currentTime \<ge> range_start r - 0.1
                                         \<and> currentTime \<le> range_end r + 0.1) ranges of
                           Some r \<Rightarrow> Some r
                         | None \<Rightarrow> closestFutureRange currentTime ranges None None) of
                     Some targetRange \<Rightarrow>
                       (let bufferEnd = range_end targetRange
                        in case getSegmentAtTime refs bufferEnd of
                             None \<Rightarrow> Inr s
                           | Some segment \<Rightarrow>
                               if bufferEnd \<ge> ref_endTime segment - 0.1 then
                                 (case getNextSegment refs segment of
                                    Some nextSegment \<Rightarrow>
                                      Inr (setSegmentPointers
                                             (Some (ref_segmentNumber nextSegment)) s)
                                  | None \<Rightarrow> Inr (setSegmentPointers None s))
                               else Inr (setSegmentPointers (Some (ref_segmentNumber segment)) s))
                   | None \<Rightarrow>
                       (case getSegmentAtTime refs currentTime of
                          Some segment \<Rightarrow>
                            Inr (setSegmentPointers (Some (ref_segmentNumber segment)) s)
                        | None \<Rightarrow> Inr s)))"

text \<open>
  How one call of \<^verbatim>\<open>#handleQuotaExceeded\<close> ends: at the reentrancy guard, without a
  sink, giving up or rescheduling itself while the sink is busy, in its \<^verbatim>\<open>catch\<close>
  block, or after the whole recovery.
\<close>

datatype quota_outcome =
    AlreadyInProgress
  | NoSourceBuffer
  | GaveUp
  | RetryScheduled
  | Caught error
  | Completed

definition newCriticalLevel :: "BufferController \<Rightarrow> real" where
  "newCriticalLevel s =
     max 10 (case criticalLevel s of
               None \<Rightarrow> level s * quotaExceededCorrectionFactor
             | Some c \<Rightarrow> c * quotaExceededCorrectionFactor)"

text \<open>
  The body of the handler once the guards have been passed: the new critical level and
  target, the cancelled downloads and cleared queues, the awaited removals (the sink is
  idle again when an awaited removal ends), the pointer reset, which can throw into the
  handler's \<^verbatim>\<open>catch\<close>, and the forced level update.
\<close>

definition quotaRecoverySteps ::
  "Env \<Rightarrow> BufferController \<Rightarrow> quota_outcome \<times> BufferController \<times> event list" where
  "quotaRecoverySteps env s2 =
     (let c = newCriticalLevel s2;
          s3 = s2\<lparr>criticalLevel := Some c\<rparr>;
          s4 = s3\<lparr>bufferingTarget := c\<rparr>;
          ev1 = [BUFFER_TARGET_CHANGED (bufferingTarget s4)];
          s5 = s4\<lparr>downloadPipeline := [],
                  appendQueue := [], appendQueueDuration := 0,
                  replacementQueue := [],
                  isProcessingReplacement := False,
                  replacementsInProgress := [],
                  isProcessingQueue := False\<rparr>;
          s6 = removeExcessBufferDataWithTracking env s5
      in case resetSegmentPointersAfterQuotaExceeded env s6 of
           Inl e \<Rightarrow> (Caught e, s6\<lparr>quotaExceededInProgress := False\<rparr>, ev1)
         | Inr s7 \<Rightarrow>
             let (s8, ev2) = updateBufferLevel env s7
             in (Completed, s8, ev1 @ ev2))"

text \<open>
  \<^verbatim>\<open>#handleQuotaExceeded(retryCount)\<close> from its first statement. The timer it arms at
  the end of a complete run (two seconds later: clear the flag, load again if the level
  is below 10) and the retry timer are later tasks.
\<close>

definition handleQuotaExceeded ::
  "Env \<Rightarrow> nat \<Rightarrow> BufferController \<Rightarrow> quota_outcome \<times> BufferController \<times> event list" where
  "handleQuotaExceeded env retryCount s0 =
     (let s1 = syncSegmentTrackingWithBuffer s0
      in if quotaExceededInProgress s1 then (AlreadyInProgress, s1, [])
         else
           let s2 = s1\<lparr>quotaExceededInProgress := True\<rparr>
           in case sourceBuffer s2 of
                None \<Rightarrow> (NoSourceBuffer, s2, [])
              | Some sb \<Rightarrow>
                  if updating sb then
                    (if retryCount \<ge> 10
                     then (GaveUp, s2\<lparr>quotaExceededInProgress := False\<rparr>, [])
                     else (RetryScheduled, s2, []))
                  else quotaRecoverySteps env s2)"

subsection \<open>The replacement rule as the specification words it\<close>

text \<open>
  The specification's candidate test, for comparison with \<open>findReplaceableSegments\<close>:
  a buffered segment qualifies when it ends after the playback time, starts at or after
  the playback time plus one and a half segment durations of the representation, has a
  bitrate strictly below the current one, and is not being replaced already.
\<close>

definition replacementCandidate_spec ::
  "real \<Rightarrow> real \<Rightarrow> BufferController \<Rightarrow> BufferedSegmentInfo \<Rightarrow> bool" where
  "replacementCandidate_spec now segmentDuration s seg =
     (bsi_endTime seg > now
      \<and> bsi_startTime seg \<ge> now + segmentDuration * 1.5
      \<and> bsi_bitrate seg < currentRepresentationBitrate s
      \<and> \<not> isBeingReplaced s seg)"

subsection \<open>Sample pipeline states\<close>

text \<open>A representation of 6000 bit/s cut into four-second segments, numbered from 0.\<close>

definition fourSecondRefs :: "SegmentReference list" where
  "fourSecondRefs =
     map (\<lambda>k. \<lparr>ref_segmentNumber = int k, ref_startTime = 4 * real k,
                ref_endTime = 4 * real k + 4\<rparr>) [0..<30]"

definition rep6000 :: Representation where
  "rep6000 = \<lparr>rep_id = ''v6000'', rep_bitrate = 6000, rep_segmentIndex = fourSecondRefs\<rparr>"

text \<open>A sink that forgets exactly the ranges lying inside the removed interval.\<close>

definition dropCoveredRanges :: "real \<Rightarrow> real \<Rightarrow> BufferRange list \<Rightarrow> BufferRange list" where
  "dropCoveredRanges start end' ranges =
     filter (\<lambda>r. \<not> (start \<le> range_start r \<and> range_end r \<le> end')) ranges"

definition sampleEnv :: "real \<Rightarrow> Env" where
  "sampleEnv t =
     \<lparr>env_now = 1000, env_currentTime = t,
      env_currentVideoRepresentation = Some rep6000,
      env_currentAudioRepresentation = None,
      env_sinkRemove = dropCoveredRanges\<rparr>"

text \<open>Quota exceeded at a buffer level of 70 s, nothing recorded as critical yet.\<close>

definition quotaState70 :: BufferController where
  "quotaState70 =
     (newBufferController Video)
       \<lparr>level := 70,
        sourceBuffer := Some \<lparr>updating = False,
                               buffered = [\<lparr>range_start = 0, range_end = 80\<rparr>]\<rparr>\<rparr>"

text \<open>
  A recovery is in progress; segment 5 is still tracked although the sink now only holds
  the first ten seconds.
\<close>

definition segment5 :: BufferedSegmentInfo where
  "segment5 = \<lparr>bsi_segmentNumber = 5, bsi_startTime = 20, bsi_endTime = 24,
               bsi_representationId = ''v6000'', bsi_bitrate = 6000, bsi_bytes = 3000\<rparr>"

definition recoveringState :: BufferController where
  "recoveringState =
     (newBufferController Video)
       \<lparr>quotaExceededInProgress := True,
        bufferedSegments := [(5, segment5)],
        sourceBuffer := Some \<lparr>updating = False,
                               buffered = [\<lparr>range_start = 0, range_end = 10\<rparr>]\<rparr>\<rparr>"

text \<open>
  After an up-switch to 6000 bit/s: segment 2, covering seconds 8 to 12, is buffered at
  1000 bit/s while the playhead stands at second 3.
\<close>

definition segment2 :: BufferedSegmentInfo where
  "segment2 = \<lparr>bsi_segmentNumber = 2, bsi_startTime = 8, bsi_endTime = 12,
               bsi_representationId = ''v1000'', bsi_bitrate = 1000, bsi_bytes = 500\<rparr>"

definition upSwitchedState :: BufferController where
  "upSwitchedState =
     (newBufferController Video)
       \<lparr>bufferedSegments := [(2, segment2)],
        currentRepresentationBitrate := 6000,
        sourceBuffer := Some \<lparr>updating = False,
                               buffered = [\<lparr>range_start = 0, range_end = 12\<rparr>]\<rparr>\<rparr>"

section \<open>DroppedFramesAbr and the quality selector\<close>

fun findIndex :: "('a \<Rightarrow> bool) \<Rightarrow> 'a list \<Rightarrow> nat option" where
  "findIndex P [] = None"
| "findIndex P (x # xs) = (if P x then Some 0 else map_option Suc (findIndex P xs))"

record IVideoPlayBackQuality =
  droppedVideoFrames :: real
  totalVideoFrames :: real

text \<open>
  The history is keyed by the string \<^verbatim>\<open>streamId:representationId\<close>; the pair stands
  for that string. A missing entry fails the \<^verbatim>\<open>assertDefined\<close>, or, with assertions
  off, the property access that follows it.
\<close>

definition getFrameHistory ::
  "bool \<Rightarrow> (int \<times> string \<rightharpoonup> IVideoPlayBackQuality) \<Rightarrow> int \<Rightarrow> string
     \<Rightarrow> error + IVideoPlayBackQuality" where
  "getFrameHistory enabled values' streamId representationId =
     (case values' (streamId, representationId) of
        None \<Rightarrow> if enabled then Inl AssertionError else Inl TypeError
      | Some history \<Rightarrow> Inr history)"

record Downgrade =
  dg_count :: nat
  lastDowngradeTime :: real

record DroppedFramesAbr =
  downgrades :: "int \<rightharpoonup> Downgrade"
  dfa_representations :: "Representation list"

definition DROPPED_FRAMES_PERCENTAGE_THRESHOLD :: real where
  "DROPPED_FRAMES_PERCENTAGE_THRESHOLD = 0.15"

definition MINIMUM_SAMPLE_SIZE :: real where
  "MINIMUM_SAMPLE_SIZE = 375"

definition MAX_CONSECUTIVE_DOWNGRADES :: nat where
  "MAX_CONSECUTIVE_DOWNGRADES = 2"

definition DOWNGRADE_COOLDOWN_MS :: real where
  "DOWNGRADE_COOLDOWN_MS = 10000"

text \<open>What the quality selector and its strategies read from outside during one check.\<close>

record AbrEnv =
  abr_now :: real
  abr_currentVideoRepresentation :: "Representation option"
  abr_bufferLevel :: real
  abr_frameHistory :: "int \<times> string \<rightharpoonup> IVideoPlayBackQuality"
  abr_bufferChoice :: "error + Representation option"
  abr_bandwidthChoice :: "error + Representation option"

text \<open>The \<^verbatim>\<open>try\<close> block of \<^verbatim>\<open>#shouldLowerResolution\<close>; a throw inside it answers false.\<close>

definition shouldLowerResolution ::
  "bool \<Rightarrow> AbrEnv \<Rightarrow> int \<Rightarrow> string \<Rightarrow> DroppedFramesAbr \<Rightarrow> bool \<times> DroppedFramesAbr" where
  "shouldLowerResolution enabled env streamId representationId s =
     (case getFrameHistory enabled (abr_frameHistory env) streamId representationId of
        Inl e \<Rightarrow> (False, s)
      | Inr videoQuality \<Rightarrow>
          if totalVideoFrames videoQuality < MINIMUM_SAMPLE_SIZE then (False, s)
          else
            let streamDowngrades = downgrades s streamId; now = abr_now env
            in if (case streamDowngrades of
                     None \<Rightarrow> False
                   | Some d \<Rightarrow> now - lastDowngradeTime d < DOWNGRADE_COOLDOWN_MS)
               then (False, s)
               else if (case streamDowngrades of
                          None \<Rightarrow> False
                        | Some d \<Rightarrow> dg_count d \<ge> MAX_CONSECUTIVE_DOWNGRADES)
               then (False, s)
               else
                 let dropRate = droppedVideoFrames videoQuality / totalVideoFrames videoQuality
                 in if dropRate > DROPPED_FRAMES_PERCENTAGE_THRESHOLD then
                      (True,
                       s\<lparr>downgrades := (downgrades s)(streamId \<mapsto>
                            (case streamDowngrades of
                               Some d \<Rightarrow> \<lparr>dg_count = dg_count d + 1, lastDowngradeTime = now\<rparr>
                             | None \<Rightarrow> \<lparr>dg_count = 1, lastDowngradeTime = now\<rparr>))\<rparr>)
                    else if dropRate < DROPPED_FRAMES_PERCENTAGE_THRESHOLD / 2 then
                      (False, s\<lparr>downgrades := (downgrades s)(streamId := None)\<rparr>)
                    else (False, s))"

text \<open>
  \<^verbatim>\<open>DroppedFramesAbr.chooseRepresentation\<close>: one step down from the current
  representation, or nothing. With assertions off and no representations the array read
  gives \<^verbatim>\<open>undefined\<close>, which the caller takes as no choice.
\<close>

definition DroppedFramesAbr_chooseRepresentation ::
  "bool \<Rightarrow> AbrEnv \<Rightarrow> DroppedFramesAbr \<Rightarrow> (error + Representation option) \<times> DroppedFramesAbr" where
  "DroppedFramesAbr_chooseRepresentation enabled env s =
     (let streamId = 0
      in case abr_currentVideoRepresentation env of
           None \<Rightarrow> (Inl RepresentationNotSet, s)
         | Some currentRepresentation \<Rightarrow>
             (case Assert_assert enabled (dfa_representations s \<noteq> []) of
                Inl e \<Rightarrow> (Inl e, s)
              | Inr _ \<Rightarrow>
                  let (lower, s') =
                        shouldLowerResolution enabled env streamId (rep_id currentRepresentation) s
                  in if lower then
                       (case dfa_representations s' of
                          [] \<Rightarrow> (Inr None, s')
                        | first # _ \<Rightarrow>
                            (case findIndex (\<lambda>r. rep_id r = rep_id currentRepresentation)
                                            (dfa_representations s') of
                               Some currentIndex \<Rightarrow>
                                 if currentIndex > 0
                                 then (Inr (Some (dfa_representations s' ! (currentIndex - 1))), s')
                                 else (Inr (Some first), s')
                             | None \<Rightarrow> (Inr (Some first), s')))
                     else (Inr None, s')))"

record AbrConfig =
  minBufferLevel :: real
  maxBufferLevel :: real
  qualityChangeThreshold :: real
  switchCooldownPeriod :: real
  startupStrategy :: AbrStrategyType
  allowSmoothing :: bool
  smoothingEnableDelay :: real
  smoothingFactor :: real
  abrEnabled :: bool

definition DEFAULT_CONFIG :: AbrConfig where
  "DEFAULT_CONFIG =
     \<lparr>minBufferLevel = 10, maxBufferLevel = 90, qualityChangeThreshold = 0.2,
      switchCooldownPeriod = 5000, startupStrategy = Bandwidth, allowSmoothing = True,
      smoothingEnableDelay = 5000, smoothingFactor = 0.5, abrEnabled = True\<rparr>"

text \<open>
  The selector's fields. Of its three strategies the dropped-frames one is part of the
  state; the Buffer and Bandwidth strategies are reached through the
  \<^verbatim>\<open>AbrStrategy\<close> interface, and what their \<^verbatim>\<open>chooseRepresentation()\<close> answers in a
  check comes with the environment.
\<close>

record AbrController =
  config :: AbrConfig
  smoothingActive :: bool
  lastSwitchTime :: real
  currentStrategy :: AbrStrategyType
  filteredRepresentations :: "Representation list"
  qualityHistory :: "(real \<times> int) list"
  droppedFramesStrategy :: DroppedFramesAbr

definition newAbrController :: AbrController where
  "newAbrController =
     \<lparr>config = DEFAULT_CONFIG, smoothingActive = False, lastSwitchTime = 0,
      currentStrategy = startupStrategy DEFAULT_CONFIG, filteredRepresentations = [],
      qualityHistory = [],
      droppedFramesStrategy = \<lparr>downgrades = Map.empty, dfa_representations = []\<rparr>\<rparr>"

definition detectOscillation :: "AbrController \<Rightarrow> bool" where
  "detectOscillation s =
     (if length (qualityHistory s) < 4 then False
      else
        let recentSwitches = drop (length (qualityHistory s) - 4) (qualityHistory s)
        in list_all (\<lambda>index.
                       if index mod 2 = 0
                       then snd (recentSwitches ! index) = snd (recentSwitches ! 0)
                       else snd (recentSwitches ! index) = snd (recentSwitches ! 1))
                    [0..<4])"

text \<open>\<^verbatim>\<open>Math.round\<close> rounds halves upwards.\<close>

definition Math_round :: "real \<Rightarrow> int" where
  "Math_round x = \<lfloor>x + 1 / 2\<rfloor>"

text \<open>
  \<^verbatim>\<open>#smoothQualitySelection\<close>. An index outside the list reads \<^verbatim>\<open>undefined\<close>, on which
  the caller's next property access throws.
\<close>

definition smoothQualitySelection ::
  "AbrEnv \<Rightarrow> AbrController \<Rightarrow> Representation \<Rightarrow> error + Representation" where
  "smoothQualitySelection env s chosen =
     (if \<not> smoothingActive s then Inr chosen
      else case abr_currentVideoRepresentation env of
             None \<Rightarrow> Inl RepresentationNotSet
           | Some current \<Rightarrow>
               let availableQualities = filteredRepresentations s
               in case findIndex (\<lambda>r. rep_id r = rep_id current) availableQualities of
                    None \<Rightarrow> Inr chosen
                  | Some currentIndex \<Rightarrow>
                      if detectOscillation s then
                        Inr (if rep_bitrate chosen > rep_bitrate current
                             then availableQualities ! currentIndex else chosen)
                      else
                        let targetIndex =
                              (case findIndex (\<lambda>r. rep_id r = rep_id chosen) availableQualities of
                                 None \<Rightarrow> - 1 | Some i \<Rightarrow> int i);
                            smoothedIndex =
                              Math_round (real currentIndex
                                + real_of_int (targetIndex - int currentIndex)
                                  * smoothingFactor (config s))
                        in if 0 \<le> smoothedIndex \<and> smoothedIndex < int (length availableQualities)
                           then Inr (availableQualities ! nat smoothedIndex)
                           else Inl TypeError)"

text \<open>The end of \<^verbatim>\<open>checkPlaybackQuality\<close>, from the final validation on.\<close>

definition triggerChange ::
  "AbrEnv \<Rightarrow> AbrController \<Rightarrow> Representation \<Rightarrow> AbrStrategyType \<Rightarrow> Representation
     \<Rightarrow> (error + bool) \<times> AbrController \<times> event list" where
  "triggerChange env s currentRepresentation usedStrategy chosenRepresentation =
     (if rep_id currentRepresentation = rep_id chosenRepresentation then (Inr False, s, [])
      else (Inr True,
            s\<lparr>currentStrategy := usedStrategy, lastSwitchTime := abr_now env\<rparr>,
            [QUALITY_CHANGE_REQUESTED chosenRepresentation usedStrategy]))"

text \<open>
  \<^verbatim>\<open>checkPlaybackQuality\<close>: what it returns or throws, the selector afterwards, and the
  events it triggered.
\<close>

definition checkPlaybackQuality ::
  "bool \<Rightarrow> AbrEnv \<Rightarrow> AbrController \<Rightarrow> (error + bool) \<times> AbrController \<times> event list" where
  "checkPlaybackQuality enabled env s =
     (let now = abr_now env
      in if now - lastSwitchTime s < switchCooldownPeriod (config s) then (Inr False, s, [])
         else if \<not> abrEnabled (config s) then (Inr False, s, [])
         else
           case abr_currentVideoRepresentation env of
             None \<Rightarrow> (Inl RepresentationNotSet, s, [])
           | Some currentRepresentation \<Rightarrow>
               (case DroppedFramesAbr_chooseRepresentation enabled env (droppedFramesStrategy s) of
                  (Inl e, d) \<Rightarrow> (Inl e, s\<lparr>droppedFramesStrategy := d\<rparr>, [])
                | (Inr droppedChoice, d) \<Rightarrow>
                    let s1 = s\<lparr>droppedFramesStrategy := d\<rparr>;
                        usedStrategy =
                          (case droppedChoice of
                             Some _ \<Rightarrow> DroppedFrames
                           | None \<Rightarrow>
                               if abr_bufferLevel env \<ge> minBufferLevel (config s1)
                               then Buffer else Bandwidth);
                        choice =
                          (case droppedChoice of
                             Some r \<Rightarrow> Inr (Some r)
                           | None \<Rightarrow>
                               if usedStrategy = Buffer then abr_bufferChoice env
                               else abr_bandwidthChoice env)
                    in case choice of
                         Inl e \<Rightarrow> (Inl e, s1, [])
                       | Inr None \<Rightarrow> (Inr False, s1, [])
                       | Inr (Some chosenRepresentation) \<Rightarrow>
                           if rep_id currentRepresentation = rep_id chosenRepresentation
                           then (Inr False, s1, [])
                           else if smoothingActive s1 then
                             (case smoothQualitySelection env s1 chosenRepresentation of
                                Inl e \<Rightarrow> (Inl e, s1, [])
                              | Inr smoothed \<Rightarrow>
                                  if rep_id currentRepresentation = rep_id smoothed
                                  then (Inr False, s1, [])
                                  else triggerChange env s1 currentRepresentation
                                         usedStrategy smoothed)
                           else triggerChange env s1 currentRepresentation
                                  usedStrategy chosenRepresentation))"

section \<open>StallDetector and the gap controller's buffer callbacks\<close>

datatype PlayerContext =
    Ctx_STARTUP
  | Ctx_SEEKING
  | Ctx_QUALITY_SWITCHING
  | Ctx_NORMAL_PLAYBACK
  | Ctx_BUFFERING

fun GRACE_PERIODS :: "PlayerContext \<Rightarrow> real" where
  "GRACE_PERIODS Ctx_STARTUP = 2000"
| "GRACE_PERIODS Ctx_SEEKING = 2000"
| "GRACE_PERIODS Ctx_QUALITY_SWITCHING = 1500"
| "GRACE_PERIODS Ctx_NORMAL_PLAYBACK = 0"
| "GRACE_PERIODS Ctx_BUFFERING = 3000"

definition STALL_THRESHOLD_MS :: real where
  "STALL_THRESHOLD_MS = 250"

definition CONSECUTIVE_CHECKS_THRESHOLD :: nat where
  "CONSECUTIVE_CHECKS_THRESHOLD = 3"

definition CHECK_INTERVAL_MS :: real where
  "CHECK_INTERVAL_MS = 100"

definition HAVE_ENOUGH_DATA :: nat where
  "HAVE_ENOUGH_DATA = 4"

definition NETWORK_LOADING :: nat where
  "NETWORK_LOADING = 2"

record VideoElement =
  v_currentTime :: real
  v_paused :: bool
  v_seeking :: bool
  v_ended :: bool
  v_readyState :: nat
  v_networkState :: nat

text \<open>
  The video element and the clock at the moment of a check, and the two optional
  callbacks handed to the constructor, as they answer at that moment.
\<close>

record StallEnv =
  st_now :: real
  st_video :: VideoElement
  st_isPositionBuffered :: "(real \<Rightarrow> bool) option"
  st_isDownloadingForPosition :: "(real \<Rightarrow> bool) option"

record StallDetector =
  lastPlaybackTime :: real
  lastCheckTime :: real
  consecutiveStallChecks :: nat
  isStalled :: bool
  lastReadyState :: nat
  currentContext :: PlayerContext
  contextStartTime :: real
  hasPlaybackStarted :: bool
  stallHistory :: "bool list"
  historySize :: nat

definition StallDetector_reset :: "StallEnv \<Rightarrow> StallDetector \<Rightarrow> StallDetector" where
  "StallDetector_reset env s =
     s\<lparr>lastPlaybackTime := v_currentTime (st_video env),
       lastCheckTime := st_now env,
       consecutiveStallChecks := 0,
       isStalled := False,
       lastReadyState := v_readyState (st_video env),
       stallHistory := []\<rparr>"

definition shouldIgnoreStall :: "StallEnv \<Rightarrow> StallDetector \<Rightarrow> real \<Rightarrow> bool" where
  "shouldIgnoreStall env s currentTime =
     (let positionBuffered =
            (case st_isPositionBuffered env of None \<Rightarrow> False | Some f \<Rightarrow> f currentTime)
      in if positionBuffered
            \<and> (case st_isDownloadingForPosition env of None \<Rightarrow> False | Some g \<Rightarrow> g currentTime)
         then True
         else if positionBuffered \<and> v_readyState (st_video env) \<ge> HAVE_ENOUGH_DATA then False
         else if currentTime < 0.1 \<and> \<not> hasPlaybackStarted s then True
         else if v_networkState (st_video env) = NETWORK_LOADING
           then currentContext s \<noteq> Ctx_NORMAL_PLAYBACK
         else False)"

definition updateStallHistory :: "bool \<Rightarrow> StallDetector \<Rightarrow> StallDetector" where
  "updateStallHistory stalled s =
     (let h = stallHistory s @ [stalled]
      in s\<lparr>stallHistory := (if length h > historySize s then tl h else h)\<rparr>)"

definition isStallPatternConfirmed :: "StallDetector \<Rightarrow> bool" where
  "isStallPatternConfirmed s =
     (if length (stallHistory s) < 3 then True
      else length (filter (\<lambda>b. b) (drop (length (stallHistory s) - 3) (stallHistory s))) \<ge> 2)"

definition detectStall :: "StallEnv \<Rightarrow> StallDetector \<Rightarrow> bool \<times> StallDetector" where
  "detectStall env s =
     (let video = st_video env;
          currentTime = v_currentTime video;
          currentCheckTime = st_now env;
          readyState = v_readyState video
      in if v_paused video \<or> v_seeking video \<or> v_ended video
         then (False, StallDetector_reset env s)
         else if currentCheckTime - contextStartTime s < GRACE_PERIODS (currentContext s)
         then (False, s)
         else
           let s1 = (if readyState \<noteq> lastReadyState s then s\<lparr>lastReadyState := readyState\<rparr> else s);
               playbackDelta = currentTime - lastPlaybackTime s1;
               timeDelta = currentCheckTime - lastCheckTime s1
           in if timeDelta \<ge> CHECK_INTERVAL_MS then
                (let isCurrentlyStalled =
                       (playbackDelta < 0.01 \<and> \<not> shouldIgnoreStall env s1 currentTime);
                     s2 = updateStallHistory isCurrentlyStalled s1
                 in if isCurrentlyStalled then
                      (let s3 = s2\<lparr>consecutiveStallChecks := consecutiveStallChecks s2 + 1\<rparr>;
                           stallDuration = real (consecutiveStallChecks s3) * CHECK_INTERVAL_MS;
                           confirmedStall =
                             (stallDuration \<ge> STALL_THRESHOLD_MS
                              \<and> consecutiveStallChecks s3 \<ge> CONSECUTIVE_CHECKS_THRESHOLD
                              \<and> isStallPatternConfirmed s3)
                       in if confirmedStall \<and> \<not> isStalled s3
                          then (True, s3\<lparr>isStalled := True\<rparr>)
                          else (isStalled s3, s3\<lparr>lastCheckTime := currentCheckTime\<rparr>))
                    else
                      (let s3 = s2\<lparr>lastPlaybackTime := currentTime,
                                   consecutiveStallChecks := 0\<rparr>;
                           s4 = (if isStalled s3 then s3\<lparr>isStalled := False\<rparr> else s3)
                       in (isStalled s4, s4\<lparr>lastCheckTime := currentCheckTime\<rparr>)))
              else (isStalled s1, s1))"

text \<open>
  The callbacks the gap controller passes in. They read the video buffer controller and
  the playback controller's current video representation; a throw inside
  \<^verbatim>\<open>#isDownloadingForPosition\<close> is caught and answers false.
\<close>

definition isPositionBuffered :: "BufferController \<Rightarrow> real \<Rightarrow> bool" where
  "isPositionBuffered bc time =
     (case sourceBuffer bc of
        None \<Rightarrow> False
      | Some sb \<Rightarrow> list_ex (\<lambda>r. time \<ge> range_start r \<and> time \<le> range_end r) (buffered sb))"

definition isDownloadingForPosition :: "Env \<Rightarrow> BufferController \<Rightarrow> real \<Rightarrow> bool" where
  "isDownloadingForPosition env bc time =
     (let downloadingSegments = map fst (downloadPipeline bc)
      in if downloadingSegments = [] then False
         else case env_currentVideoRepresentation env of
                None \<Rightarrow> False
              | Some videoRep \<Rightarrow>
                  (case getSegmentAtTime (rep_segmentIndex videoRep) time of
                     None \<Rightarrow> False
                   | Some segmentAtTime \<Rightarrow>
                       let isDownloading = ref_segmentNumber segmentAtTime \<in> set downloadingSegments;
                           isQueued = list_ex (\<lambda>queuedSeg. qs_segmentNumber queuedSeg
                                                  = ref_segmentNumber segmentAtTime)
                                              (appendQueue bc)
                       in isDownloading \<or> isQueued))"

section \<open>BufferAbr: the BOLA controller\<close>

text \<open>
  Buffer levels, bitrates, utilities and gains are reals here; the timestamps that the
  source initialises to NaN are options, \<open>None\<close> being NaN. Where the source would
  compute with an infinity or NaN the real-valued model has no counterpart: a bitrate
  that is not positive has no finite logarithm, a list whose first and last bitrates
  agree (a single representation among them) makes \<open>gp\<close> zero and \<open>vp\<close> infinite, and
  two neighbours of equal bitrate make \<^verbatim>\<open>#getMinBufferLevelForRepresentation\<close> divide
  zero by zero. Statements about the controller are therefore made for lists of
  different positive bitrates, the condition \<open>distinctPositiveBitrates\<close> below.
\<close>

datatype BolaAlgorithmState = STARTUP | STEADY_STATE | ONE_BITRATE

record BolaState =
  representations :: "Representation list"
  utilities :: "real list"
  vp :: real
  gp :: real
  currentRepresentation :: "Representation option"
  placeholderBuffer :: real
  lastSegmentFinishTimeMs :: "real option"
  lastCallTimeMs :: "real option"
  lastSegmentStart :: "real option"
  lastSegmentRequestTimeMs :: "real option"
  algorithmState :: BolaAlgorithmState
  lastSegmentDurationS :: "real option"
  mostAdvancedSegmentStart :: "real option"
  lastSegmentWasReplacement :: bool
  rebufferStartTimeMs :: "real option"
  segmentCount :: nat

record BufferAbr =
  bola_minBufferLevel :: real
  bola_maxBufferLevel :: real
  bola_qualityChangeThreshold :: real
  bufferTarget :: real
  bolaState :: "BolaState option"

text \<open>
  The clock, the buffer controller's level and the bandwidth estimate (\<open>None\<close> when it
  is NaN) at the moment of a call.
\<close>

record BolaEnv =
  bola_now :: real
  bola_bufferLevel :: real
  bola_throughput :: "real option"

definition SAFETY_FACTOR_INCREASE :: real where
  "SAFETY_FACTOR_INCREASE = 1.2"

definition SAFETY_FACTOR_DECREASE :: real where
  "SAFETY_FACTOR_DECREASE = 0.95"

definition MINIMUM_BUFFER_PER_BITRATE_LEVEL :: real where
  "MINIMUM_BUFFER_PER_BITRATE_LEVEL = 2"

definition THROUGHPUT_SAFETY_FACTOR :: real where
  "THROUGHPUT_SAFETY_FACTOR = 0.9"

text \<open>The constructor; a zero target from the buffer controller falls back to 60.\<close>

definition newBufferAbr :: "real \<Rightarrow> real \<Rightarrow> real \<Rightarrow> real \<Rightarrow> BufferAbr" where
  "newBufferAbr minLevel maxLevel threshold target =
     \<lparr>bola_minBufferLevel = minLevel, bola_maxBufferLevel = maxLevel,
      bola_qualityChangeThreshold = threshold,
      bufferTarget = (if target = 0 then 60 else target),
      bolaState = None\<rparr>"

text \<open>
  \<^verbatim>\<open>#initBolaState\<close>. On an empty list the source asserts; with assertions off it goes
  on with NaN gains, which this model does not follow (\<open>OutsideModel\<close>). The two
  quotients are those of the source for positive bitrates, a minimum buffer level that
  is not zero and a last bitrate different from the first; elsewhere the source has an
  infinity or NaN where the real quotient has a number.
\<close>

definition initBolaState ::
  "bool \<Rightarrow> BolaEnv \<Rightarrow> BufferAbr \<Rightarrow> Representation list \<Rightarrow> error + BolaState" where
  "initBolaState enabled env s reps =
     (if reps = [] then (if enabled then Inl AssertionError else Inl OutsideModel)
      else
        let utilities0 = map (\<lambda>representation. ln (rep_bitrate representation)) reps;
            utilities1 = map (\<lambda>u. u - utilities0 ! 0 + 1) utilities0;
            bufferTimeDefault = 12;
            bufferTime = max bufferTimeDefault
                           (bola_minBufferLevel s
                            + MINIMUM_BUFFER_PER_BITRATE_LEVEL * real (length reps));
            gp' = (utilities1 ! (length utilities1 - 1) - 1)
                  / (bufferTime / bola_minBufferLevel s - 1);
            vp' = bola_minBufferLevel s / gp';
            existingState =
              (case bolaState s of None \<Rightarrow> STARTUP | Some st \<Rightarrow> algorithmState st)
        in Inr \<lparr>representations = reps, utilities = utilities1, vp = vp', gp = gp',
                 currentRepresentation = None, placeholderBuffer = 0,
                 lastSegmentFinishTimeMs = None, lastCallTimeMs = Some (bola_now env),
                 lastSegmentStart = None, lastSegmentRequestTimeMs = None,
                 algorithmState = existingState, lastSegmentDurationS = None,
                 mostAdvancedSegmentStart = None, lastSegmentWasReplacement = False,
                 rebufferStartTimeMs = None, segmentCount = 0\<rparr>)"

text \<open>The BOLA score of the representation at index \<open>i\<close> for a buffer level.\<close>

definition bolaScore :: "BolaState \<Rightarrow> nat \<Rightarrow> real \<Rightarrow> real" where
  "bolaScore st i bufferLevel =
     (vp st * (utilities st ! i + gp st - 1) - bufferLevel)
     / rep_bitrate (representations st ! i)"

text \<open>
  \<^verbatim>\<open>#getMinBufferLevelForRepresentation\<close>. The divisor is the difference of two
  neighbouring bitrates; where it is zero the source yields NaN or an infinity, so the
  quotient below is that of the source for neighbours of different bitrates only.
\<close>

definition getMinBufferLevelForRepresentation :: "BolaState \<Rightarrow> Representation \<Rightarrow> real" where
  "getMinBufferLevelForRepresentation st rep =
     (case findIndex (\<lambda>r. rep_id r = rep_id rep) (representations st) of
        None \<Rightarrow> 0
      | Some repIndex \<Rightarrow>
          if repIndex = 0 then 0
          else
            let util_i = utilities st ! repIndex;
                util_prev = utilities st ! (repIndex - 1);
                bitrate_i = rep_bitrate (representations st ! repIndex);
                bitrate_prev = rep_bitrate (representations st ! (repIndex - 1));
                numerator = vp st * (util_i * bitrate_prev - util_prev * bitrate_i
                                     + gp st * (bitrate_prev - bitrate_i));
                denominator = bitrate_prev - bitrate_i
            in max 0 (numerator / denominator))"

definition getMaxBufferLevelForRepresentation ::
  "BufferAbr \<Rightarrow> BolaState \<Rightarrow> Representation \<Rightarrow> real" where
  "getMaxBufferLevelForRepresentation s st rep =
     (case findIndex (\<lambda>r. rep_id r = rep_id rep) (representations st) of
        None \<Rightarrow> bola_maxBufferLevel s
      | Some repIndex \<Rightarrow>
          if repIndex = length (representations st) - 1 then bola_maxBufferLevel s
          else getMinBufferLevelForRepresentation st (representations st ! (repIndex + 1)))"

text \<open>
  The loop of \<^verbatim>\<open>#getRepresentationFromBufferLevel\<close> over the indices; the best score
  starts at minus infinity (\<open>None\<close>), and a later index wins a tie.
\<close>

fun scoreLoop :: "BolaState \<Rightarrow> real \<Rightarrow> nat option \<Rightarrow> nat list \<Rightarrow> nat \<Rightarrow> real option \<Rightarrow> nat" where
  "scoreLoop st bufferLevel currentRepIndex [] quality bestScore = quality"
| "scoreLoop st bufferLevel currentRepIndex (i # rest) quality bestScore =
     (let score = bolaScore st i bufferLevel;
          adjustedScore =
            (case currentRepIndex of
               None \<Rightarrow> score
             | Some c \<Rightarrow>
                 score * (if i > c then SAFETY_FACTOR_INCREASE else SAFETY_FACTOR_DECREASE))
      in if (case bestScore of None \<Rightarrow> True | Some b \<Rightarrow> adjustedScore \<ge> b)
         then scoreLoop st bufferLevel currentRepIndex rest i (Some adjustedScore)
         else scoreLoop st bufferLevel currentRepIndex rest quality bestScore)"

definition getRepresentationFromBufferLevel ::
  "BolaState \<Rightarrow> real \<Rightarrow> Representation option \<times> BolaState" where
  "getRepresentationFromBufferLevel st bufferLevel =
     (let currentRepIndex =
            (case currentRepresentation st of
               None \<Rightarrow> None
             | Some cur \<Rightarrow> findIndex (\<lambda>r. rep_id r = rep_id cur) (representations st));
          quality = scoreLoop st bufferLevel currentRepIndex
                      [0..<length (representations st)] 0 None;
          selectedRepresentation =
            (if quality < length (representations st)
             then Some (representations st ! quality) else None)
      in (selectedRepresentation, st\<lparr>currentRepresentation := selectedRepresentation\<rparr>))"

text \<open>The highest representation in list order whose bitrate fits, stopping at the first that does not.\<close>

fun throughputLoop :: "real \<Rightarrow> Representation list \<Rightarrow> Representation \<Rightarrow> Representation" where
  "throughputLoop limit [] selected = selected"
| "throughputLoop limit (rep # rest) selected =
     (if rep_bitrate rep \<le> limit then throughputLoop limit rest rep else selected)"

definition getOptimalRepresentationForThroughput ::
  "BolaState \<Rightarrow> real \<Rightarrow> Representation option" where
  "getOptimalRepresentationForThroughput st throughputBps =
     (case representations st of
        [] \<Rightarrow> None
      | first # _ \<Rightarrow> Some (throughputLoop throughputBps (representations st) first))"

definition checkPlaceholderBufferLimit :: "BufferAbr \<Rightarrow> BolaState \<Rightarrow> BolaState" where
  "checkPlaceholderBufferLimit s st =
     (let maxPlaceholder = bola_maxBufferLevel s - bufferTarget s
      in if placeholderBuffer st > maxPlaceholder
         then st\<lparr>placeholderBuffer := maxPlaceholder\<rparr> else st)"

definition updatePlaceholderBuffer :: "BolaEnv \<Rightarrow> BufferAbr \<Rightarrow> BolaState \<Rightarrow> BolaState" where
  "updatePlaceholderBuffer env s st =
     (let nowMs = bola_now env;
          MS_TO_SEC = 0.001;
          st1 = (case lastSegmentFinishTimeMs st of
                   Some finish \<Rightarrow>
                     st\<lparr>placeholderBuffer :=
                          placeholderBuffer st + max 0 (MS_TO_SEC * (nowMs - finish))\<rparr>
                 | None \<Rightarrow>
                     (case lastCallTimeMs st of
                        Some call \<Rightarrow>
                          st\<lparr>placeholderBuffer :=
                               placeholderBuffer st + max 0 (MS_TO_SEC * (nowMs - call))\<rparr>
                      | None \<Rightarrow> st));
          st2 = st1\<lparr>lastCallTimeMs := Some nowMs, lastSegmentStart := None,
                    lastSegmentRequestTimeMs := None, lastSegmentFinishTimeMs := None\<rparr>
      in checkPlaceholderBufferLimit s st2)"

text \<open>
  \<^verbatim>\<open>#chooseThroughputBasedRepresentation\<close>, the choice in STARTUP. With no
  representation the array read gives \<^verbatim>\<open>undefined\<close>, which is returned as it is when
  the estimate is NaN; otherwise the index search over the empty list finds nothing, the
  minimum buffer level is 0, the placeholder is assigned, and the log line that follows
  fails on \<^verbatim>\<open>selected.height\<close>.
\<close>

definition chooseThroughputBasedRepresentation ::
  "BolaEnv \<Rightarrow> BolaState \<Rightarrow> (error + Representation option) \<times> BolaState" where
  "chooseThroughputBasedRepresentation env st =
     (case bola_throughput env of
        None \<Rightarrow> (Inr (case representations st of [] \<Rightarrow> None | first # _ \<Rightarrow> Some first), st)
      | Some throughputBps \<Rightarrow>
          (case representations st of
             [] \<Rightarrow>
               (Inl TypeError, st\<lparr>placeholderBuffer := max 0 (0 - bola_bufferLevel env)\<rparr>)
           | first # _ \<Rightarrow>
               let safeThroughput = throughputBps * THROUGHPUT_SAFETY_FACTOR;
                   selected = throughputLoop safeThroughput (representations st) first;
                   bufferLevel = bola_bufferLevel env;
                   minBufferForRep = getMinBufferLevelForRepresentation st selected;
                   st1 = st\<lparr>placeholderBuffer := max 0 (minBufferForRep - bufferLevel)\<rparr>;
                   st2 = st1\<lparr>currentRepresentation := Some selected\<rparr>;
                   st3 = (case lastSegmentDurationS st2 of
                            Some d \<Rightarrow>
                              if bufferLevel \<ge> d then st2\<lparr>algorithmState := STEADY_STATE\<rparr>
                              else st2
                          | None \<Rightarrow> st2)
               in (Inr (Some selected), st3)))"

text \<open>\<^verbatim>\<open>#chooseBufferBasedRepresentation\<close>, the choice in STEADY_STATE.\<close>

definition chooseBufferBasedRepresentation ::
  "bool \<Rightarrow> BolaEnv \<Rightarrow> BufferAbr \<Rightarrow> BolaState \<Rightarrow> (error + Representation option) \<times> BolaState" where
  "chooseBufferBasedRepresentation enabled env s st =
     (case Assert_assert enabled (currentRepresentation st \<noteq> None) of
        Inl e \<Rightarrow> (Inl e, st)
      | Inr _ \<Rightarrow>
          let st1 = updatePlaceholderBuffer env s st;
              bufferLevel = bola_bufferLevel env;
              effectiveBuffer = bufferLevel + placeholderBuffer st1;
              (chosen, st2) = getRepresentationFromBufferLevel st1 effectiveBuffer
          in case chosen of
               None \<Rightarrow> (Inl TypeError, st2)
             | Some bolaChoice \<Rightarrow>
                 let representation =
                       (case bola_throughput env of
                          None \<Rightarrow> bolaChoice
                        | Some throughputBps \<Rightarrow>
                            (case (getOptimalRepresentationForThroughput st2
                                     (throughputBps * THROUGHPUT_SAFETY_FACTOR),
                                   currentRepresentation st2) of
                               (Some throughputRep, Some cur) \<Rightarrow>
                                 if rep_bitrate bolaChoice > rep_bitrate cur
                                    \<and> rep_bitrate bolaChoice > rep_bitrate throughputRep
                                 then (if rep_bitrate throughputRep > rep_bitrate cur
                                       then throughputRep else cur)
                                 else bolaChoice
                             | _ \<Rightarrow> bolaChoice));
                     maxBufferForRep = getMaxBufferLevelForRepresentation s st2 representation;
                     delayS = max 0 (effectiveBuffer - maxBufferForRep);
                     st3 = (if delayS > 0 then
                              (if delayS \<le> placeholderBuffer st2
                               then st2\<lparr>placeholderBuffer := placeholderBuffer st2 - delayS\<rparr>
                               else st2\<lparr>placeholderBuffer := 0\<rparr>)
                            else st2);
                     st4 = st3\<lparr>currentRepresentation := Some representation\<rparr>
                 in (Inr (Some representation), st4))"

definition BufferAbr_chooseRepresentation ::
  "bool \<Rightarrow> BolaEnv \<Rightarrow> BufferAbr \<Rightarrow> (error + Representation option) \<times> BufferAbr" where
  "BufferAbr_chooseRepresentation enabled env s =
     (case bolaState s of
        None \<Rightarrow> (if enabled then Inl AssertionError else Inl TypeError, s)
      | Some st \<Rightarrow>
          (case algorithmState st of
             ONE_BITRATE \<Rightarrow>
               (Inr (case representations st of [] \<Rightarrow> None | first # _ \<Rightarrow> Some first), s)
           | STARTUP \<Rightarrow>
               (let (r, st') = chooseThroughputBasedRepresentation env st
                in (r, s\<lparr>bolaState := Some st'\<rparr>))
           | STEADY_STATE \<Rightarrow>
               (let (r, st') = chooseBufferBasedRepresentation enabled env s st
                in (r, s\<lparr>bolaState := Some st'\<rparr>))))"

fun closestLoop :: "real \<Rightarrow> Representation list \<Rightarrow> Representation \<Rightarrow> real \<Rightarrow> Representation" where
  "closestLoop target [] closest minDiff = closest"
| "closestLoop target (rep # rest) closest minDiff =
     (let diff = \<bar>target - rep_bitrate rep\<bar>
      in if diff < minDiff then closestLoop target rest rep diff
         else closestLoop target rest closest minDiff)"

definition findClosestRepresentation ::
  "Representation \<Rightarrow> Representation \<Rightarrow> Representation list \<Rightarrow> Representation" where
  "findClosestRepresentation targetRep first availableReps =
     closestLoop (rep_bitrate targetRep) availableReps first
       \<bar>rep_bitrate targetRep - rep_bitrate first\<bar>"

text \<open>
  \<^verbatim>\<open>setRepresentations\<close>. Both it and \<^verbatim>\<open>#initBolaState\<close> assert a non-empty list,
  and \<open>first\<close> is \<^verbatim>\<open>representations[0]\<close>.
\<close>

definition setRepresentations ::
  "bool \<Rightarrow> BolaEnv \<Rightarrow> Representation list \<Rightarrow> BufferAbr \<Rightarrow> error + BufferAbr" where
  "setRepresentations enabled env reps s =
     (case Assert_assert enabled (length reps > 0) of
        Inl e \<Rightarrow> Inl e
      | Inr _ \<Rightarrow>
          let wasInitialized = (bolaState s \<noteq> None);
              previousRepresentation =
                (case bolaState s of None \<Rightarrow> None | Some st \<Rightarrow> currentRepresentation st);
              previousAlgorithmState = map_option algorithmState (bolaState s)
          in case (initBolaState enabled env s reps, reps) of
               (Inl e, _) \<Rightarrow> Inl e
             | (Inr st0, []) \<Rightarrow> Inl OutsideModel
             | (Inr st0, first # _) \<Rightarrow>
                 let st1 = (if \<not> wasInitialized then st0\<lparr>algorithmState := STARTUP\<rparr>
                            else case previousAlgorithmState of
                                   Some a \<Rightarrow> st0\<lparr>algorithmState := a\<rparr>
                                 | None \<Rightarrow> st0);
                     st2 =
                       (if length reps = 1
                        then st1\<lparr>algorithmState := ONE_BITRATE,
                                 currentRepresentation := Some first\<rparr>
                        else case previousRepresentation of
                               None \<Rightarrow> st1
                             | Some prev \<Rightarrow>
                                 (case find (\<lambda>rep. rep_id rep = rep_id prev) reps of
                                    Some matchingRep \<Rightarrow>
                                      st1\<lparr>currentRepresentation := Some matchingRep\<rparr>
                                  | None \<Rightarrow>
                                      let closest = findClosestRepresentation prev first reps;
                                          st1a = st1\<lparr>currentRepresentation := Some closest\<rparr>
                                      in if rep_id closest \<noteq> rep_id prev then
                                           (let bufferLevel = bola_bufferLevel env;
                                                minBufferForNewRep =
                                                  getMinBufferLevelForRepresentation st1a closest
                                            in if bufferLevel + placeholderBuffer st1a
                                                    < minBufferForNewRep
                                               then st1a\<lparr>placeholderBuffer :=
                                                      max (placeholderBuffer st1a)
                                                          (minBufferForNewRep - bufferLevel)\<rparr>
                                               else st1a)
                                         else st1a))
                 in Inr (s\<lparr>bolaState := Some st2\<rparr>))"

subsection \<open>Event handlers\<close>

definition clearBolaStateOnSeek :: "BolaState \<Rightarrow> BolaState" where
  "clearBolaStateOnSeek st =
     st\<lparr>placeholderBuffer := 0, mostAdvancedSegmentStart := None,
        lastSegmentWasReplacement := False, lastSegmentStart := None,
        lastSegmentDurationS := None, lastSegmentRequestTimeMs := None,
        lastSegmentFinishTimeMs := None, segmentCount := 0\<rparr>"

definition onPlaybackStarted :: "BufferAbr \<Rightarrow> BufferAbr" where
  "onPlaybackStarted s =
     (case bolaState s of
        None \<Rightarrow> s
      | Some st \<Rightarrow> s\<lparr>bolaState := Some (clearBolaStateOnSeek (st\<lparr>algorithmState := STARTUP\<rparr>))\<rparr>)"

definition onPlaybackSeeked :: "BufferAbr \<Rightarrow> BufferAbr" where
  "onPlaybackSeeked s =
     (case bolaState s of
        None \<Rightarrow> s
      | Some st \<Rightarrow>
          if algorithmState st \<noteq> ONE_BITRATE
          then s\<lparr>bolaState := Some (clearBolaStateOnSeek (st\<lparr>algorithmState := STARTUP\<rparr>))\<rparr>
          else s)"

definition onBufferEmpty :: "BolaEnv \<Rightarrow> BufferAbr \<Rightarrow> BufferAbr" where
  "onBufferEmpty env s =
     (case bolaState s of
        None \<Rightarrow> s
      | Some st \<Rightarrow>
          let st1 = st\<lparr>rebufferStartTimeMs := Some (bola_now env), placeholderBuffer := 0\<rparr>
          in s\<lparr>bolaState :=
                 Some (if algorithmState st1 = STEADY_STATE
                       then st1\<lparr>algorithmState := STARTUP\<rparr> else st1)\<rparr>)"

definition onSegmentDownloadBegin :: "BolaEnv \<Rightarrow> SegmentReference \<Rightarrow> BufferAbr \<Rightarrow> BufferAbr" where
  "onSegmentDownloadBegin env segmentRef s =
     (case bolaState s of
        None \<Rightarrow> s
      | Some st \<Rightarrow>
          let st1 = st\<lparr>lastSegmentRequestTimeMs := Some (bola_now env),
                       lastSegmentStart := Some (ref_startTime segmentRef)\<rparr>
          in s\<lparr>bolaState :=
                 Some (if (case mostAdvancedSegmentStart st1 of
                             None \<Rightarrow> True
                           | Some m \<Rightarrow> ref_startTime segmentRef > m)
                       then st1\<lparr>mostAdvancedSegmentStart := Some (ref_startTime segmentRef)\<rparr>
                       else st1)\<rparr>)"

definition onSegmentDownloadEnd ::
  "BolaEnv \<Rightarrow> SegmentReference option \<Rightarrow> bool \<Rightarrow> BufferAbr \<Rightarrow> BufferAbr" where
  "onSegmentDownloadEnd env segmentRef isReplacement s =
     (case bolaState s of
        None \<Rightarrow> s
      | Some st \<Rightarrow>
          let st1 = st\<lparr>lastSegmentFinishTimeMs := Some (bola_now env),
                       segmentCount := segmentCount st + 1\<rparr>;
              st2 = (case segmentRef of
                       Some r \<Rightarrow> st1\<lparr>lastSegmentDurationS := Some (ref_endTime r - ref_startTime r)\<rparr>
                     | None \<Rightarrow> st1)
          in s\<lparr>bolaState := Some (st2\<lparr>lastSegmentWasReplacement := isReplacement\<rparr>)\<rparr>)"

text \<open>
  The operations on the controller that leave its configuration alone, and the state
  each leaves behind, also when it throws.
\<close>

datatype bola_op =
    Choose
  | SetRepresentations "Representation list"
  | PlaceholderUpdate
  | SegmentDownloadBegin SegmentReference
  | SegmentDownloadEnd "SegmentReference option" bool
  | PlaybackSeeked
  | PlaybackStarted
  | BufferEmpty

fun bola_step :: "bool \<Rightarrow> BolaEnv \<Rightarrow> bola_op \<Rightarrow> BufferAbr \<Rightarrow> BufferAbr" where
  "bola_step enabled env Choose s = snd (BufferAbr_chooseRepresentation enabled env s)"
| "bola_step enabled env (SetRepresentations reps) s =
     (case setRepresentations enabled env reps s of Inl e \<Rightarrow> s | Inr s' \<Rightarrow> s')"
| "bola_step enabled env PlaceholderUpdate s =
     (case bolaState s of
        None \<Rightarrow> s
      | Some st \<Rightarrow> s\<lparr>bolaState := Some (updatePlaceholderBuffer env s st)\<rparr>)"
| "bola_step enabled env (SegmentDownloadBegin r) s = onSegmentDownloadBegin env r s"
| "bola_step enabled env (SegmentDownloadEnd r isReplacement) s =
     onSegmentDownloadEnd env r isReplacement s"
| "bola_step enabled env PlaybackSeeked s = onPlaybackSeeked s"
| "bola_step enabled env PlaybackStarted s = onPlaybackStarted s"
| "bola_step enabled env BufferEmpty s = onBufferEmpty env s"

definition placeholderOf :: "BufferAbr \<Rightarrow> real" where
  "placeholderOf s = (case bolaState s of None \<Rightarrow> 0 | Some st \<Rightarrow> placeholderBuffer st)"

definition modeOf :: "BufferAbr \<Rightarrow> BolaAlgorithmState option" where
  "modeOf s = map_option algorithmState (bolaState s)"

subsection \<open>Lists and states the real-valued model follows\<close>

text \<open>
  Every bitrate positive and no two equal. The quality selector hands over lists sorted
  by bitrate, so neighbours in the list are then different too.
\<close>

definition distinctPositiveBitrates :: "Representation list \<Rightarrow> bool" where
  "distinctPositiveBitrates reps =
     (list_all (\<lambda>r. 0 < rep_bitrate r) reps \<and> distinct (map rep_bitrate reps))"

text \<open>
  A controller whose BOLA state, if it has one, holds such a list, not empty, with one
  utility for each representation.
\<close>

definition ladderWellFormed :: "BufferAbr \<Rightarrow> bool" where
  "ladderWellFormed s =
     (case bolaState s of
        None \<Rightarrow> True
      | Some st \<Rightarrow>
          representations st \<noteq> []
          \<and> length (utilities st) = length (representations st)
          \<and> distinctPositiveBitrates (representations st))"

text \<open>
  An operation whose arithmetic stays finite in the source: \<^verbatim>\<open>setRepresentations\<close>
  with at least two representations of different positive bitrates, under a positive
  minimum buffer level. The other operations compute no gains.
\<close>

definition opWellFormed :: "BufferAbr \<Rightarrow> bola_op \<Rightarrow> bool" where
  "opWellFormed s op =
     (case op of
        SetRepresentations reps \<Rightarrow>
          2 \<le> length reps \<and> distinctPositiveBitrates reps \<and> 0 < bola_minBufferLevel s
      | _ \<Rightarrow> True)"

subsection \<open>Sample ladders\<close>

definition plainRep :: "string \<Rightarrow> real \<Rightarrow> Representation" where
  "plainRep name rate = \<lparr>rep_id = name, rep_bitrate = rate, rep_segmentIndex = []\<rparr>"

text \<open>Two representations, 1000 and 2000 bit/s, under the default configuration.\<close>

definition ladder2 :: "Representation list" where
  "ladder2 = [plainRep ''r0'' 1000, plainRep ''r1'' 2000]"

definition defaultBufferAbr :: BufferAbr where
  "defaultBufferAbr = newBufferAbr 10 90 0.2 60"

definition bolaEnv0 :: BolaEnv where
  "bolaEnv0 = \<lparr>bola_now = 0, bola_bufferLevel = 0, bola_throughput = Some 3000000\<rparr>"

text \<open>
  The controller after its first \<^verbatim>\<open>setRepresentations\<close> under the default
  configuration.
\<close>

definition abrAfterInit :: "Representation list \<Rightarrow> BufferAbr" where
  "abrAfterInit reps =
     (case setRepresentations True bolaEnv0 reps defaultBufferAbr of
        Inl e \<Rightarrow> defaultBufferAbr
      | Inr s \<Rightarrow> s)"

text \<open>
  Seventeen representations, each twice the bitrate of the one before, from 1000 bit/s
  to 65.536 Mbit/s.
\<close>

definition ladder17 :: "Representation list" where
  "ladder17 =
     [plainRep ''r0'' 1000,
      plainRep ''r1'' 2000,
      plainRep ''r2'' 4000,
      plainRep ''r3'' 8000,
      plainRep ''r4'' 16000,
      plainRep ''r5'' 32000,
      plainRep ''r6'' 64000,
      plainRep ''r7'' 128000,
      plainRep ''r8'' 256000,
      plainRep ''r9'' 512000,
      plainRep ''r10'' 1024000,
      plainRep ''r11'' 2048000,
      plainRep ''r12'' 4096000,
      plainRep ''r13'' 8192000,
      plainRep ''r14'' 16384000,
      plainRep ''r15'' 32768000,
      plainRep ''r16'' 65536000]"

text \<open>
  A start of playback under the default configuration: the controller receives its list,
  playback starts, and three segments of four seconds are requested and arrive while
  the buffer fills.
\<close>

definition startupSegment :: "nat \<Rightarrow> SegmentReference" where
  "startupSegment k =
     \<lparr>ref_segmentNumber = int k, ref_startTime = 4 * real k, ref_endTime = 4 * real k + 4\<rparr>"

definition bolaEnvAt :: "real \<Rightarrow> real \<Rightarrow> real \<Rightarrow> BolaEnv" where
  "bolaEnvAt nowMs lvl throughputBps =
     \<lparr>bola_now = nowMs, bola_bufferLevel = lvl, bola_throughput = Some throughputBps\<rparr>"

definition startupEvents :: "(BolaEnv \<times> bola_op) list" where
  "startupEvents =
     [(bolaEnvAt 0 0 3000000, PlaybackStarted),
      (bolaEnvAt 100 0 3000000, SegmentDownloadBegin (startupSegment 0)),
      (bolaEnvAt 600 0 3000000, SegmentDownloadEnd (Some (startupSegment 0)) False),
      (bolaEnvAt 700 4 3000000, SegmentDownloadBegin (startupSegment 1)),
      (bolaEnvAt 1200 4 3000000, SegmentDownloadEnd (Some (startupSegment 1)) False),
      (bolaEnvAt 1300 8 3000000, SegmentDownloadBegin (startupSegment 2)),
      (bolaEnvAt 1800 8 3000000, SegmentDownloadEnd (Some (startupSegment 2)) False)]"

definition abrAfterDownloads :: "Representation list \<Rightarrow> BufferAbr" where
  "abrAfterDownloads reps =
     foldl (\<lambda>s (env, op). bola_step True env op s) (abrAfterInit reps) startupEvents"

text \<open>
  Two seconds of the twelve have been played when the quality check runs: the buffer
  holds 10 s, the level from which the selector consults the buffer strategy. The
  bandwidth estimate is 3 Mbit/s in the first environment and 100 Mbit/s in the second.
\<close>

definition tenSecondsBuffered :: BolaEnv where
  "tenSecondsBuffered = bolaEnvAt 3800 10 3000000"

definition tenSecondsBufferedFast :: BolaEnv where
  "tenSecondsBufferedFast = bolaEnvAt 3800 10 100000000"

text \<open>The BOLA states that the sample ladders initialise, written out.\<close>

definition freshBolaState :: "Representation list \<Rightarrow> real list \<Rightarrow> real \<Rightarrow> real \<Rightarrow> BolaState" where
  "freshBolaState reps us v g =
     \<lparr>representations = reps, utilities = us, vp = v, gp = g,
      currentRepresentation = None, placeholderBuffer = 0,
      lastSegmentFinishTimeMs = None, lastCallTimeMs = Some 0,
      lastSegmentStart = None, lastSegmentRequestTimeMs = None,
      algorithmState = STARTUP, lastSegmentDurationS = None,
      mostAdvancedSegmentStart = None, lastSegmentWasReplacement = False,
      rebufferStartTimeMs = None, segmentCount = 0\<rparr>"

definition ladder2State :: BolaState where
  "ladder2State = freshBolaState ladder2 [1, 1 + ln 2] (4 / ln 2) (5 * ln 2 / 2)"

text \<open>
  The state of a ladder after the three downloads: the timing fields hold the last
  request and arrival, everything else is as initialised.
\<close>

definition afterDownloads :: "BolaState \<Rightarrow> BolaState" where
  "afterDownloads st =
     st\<lparr>lastSegmentFinishTimeMs := Some 1800, lastSegmentStart := Some 8,
        lastSegmentRequestTimeMs := Some 1300, lastSegmentDurationS := Some 4,
        mostAdvancedSegmentStart := Some 8, segmentCount := 3\<rparr>"

definition ladder17State :: BolaState where
  "ladder17State =
     freshBolaState ladder17
       [1, 1 + ln 2, 1 + 2 * ln 2, 1 + 3 * ln 2, 1 + 4 * ln 2, 1 + 5 * ln 2, 1 + 6 * ln 2,
        1 + 7 * ln 2, 1 + 8 * ln 2, 1 + 9 * ln 2, 1 + 10 * ln 2, 1 + 11 * ln 2,
        1 + 12 * ln 2, 1 + 13 * ln 2, 1 + 14 * ln 2, 1 + 15 * ln 2, 1 + 16 * ln 2]
       (17 / (8 * ln 2)) (80 * ln 2 / 17)"

subsection \<open>Sample selector and stall-detector states\<close>

text \<open>
  The selector two seconds after its last switch, playing the 2000 bit/s representation
  of the two-step ladder, of which 400 frames were sampled and 100 dropped.
\<close>

definition cooldownState :: AbrController where
  "cooldownState =
     newAbrController
       \<lparr>lastSwitchTime := 1000,
        filteredRepresentations := ladder2,
        droppedFramesStrategy := \<lparr>downgrades = Map.empty, dfa_representations = ladder2\<rparr>\<rparr>"

definition droppingEnv :: "real \<Rightarrow> AbrEnv" where
  "droppingEnv now =
     \<lparr>abr_now = now,
      abr_currentVideoRepresentation = Some (plainRep ''r1'' 2000),
      abr_bufferLevel = 20,
      abr_frameHistory =
        [(0, ''r1'') \<mapsto> \<lparr>droppedVideoFrames = 100, totalVideoFrames = 400\<rparr>],
      abr_bufferChoice = Inr (Some (plainRep ''r1'' 2000)),
      abr_bandwidthChoice = Inr (Some (plainRep ''r1'' 2000))\<rparr>"

text \<open>
  A stall-candidate sample in the specification's words: the player is not paused,
  seeking or ended, the grace period of the context is over, and the position advanced
  by less than 0.01 s over at least 100 ms.
\<close>

definition isStallCandidate :: "StallEnv \<Rightarrow> StallDetector \<Rightarrow> bool" where
  "isStallCandidate env s =
     (\<not> v_paused (st_video env) \<and> \<not> v_seeking (st_video env) \<and> \<not> v_ended (st_video env)
      \<and> \<not> st_now env - contextStartTime s < GRACE_PERIODS (currentContext s)
      \<and> st_now env - lastCheckTime s \<ge> 100
      \<and> v_currentTime (st_video env) - lastPlaybackTime s < 0.01)"

text \<open>
  The playhead rests at second 30; the sink holds seconds 0 to 20 and segment 7, which
  covers seconds 28 to 32, is being downloaded.
\<close>

definition task7 :: DownloadTask where
  "task7 = \<lparr>dt_segmentNumber = 7, dt_url = ''seg7.m4s'', dt_representationId = ''v6000'',
            dt_startTime = 9000, dt_isReplacement = False, dt_replacingSegment = None\<rparr>"

definition rebufferingPipeline :: BufferController where
  "rebufferingPipeline =
     (newBufferController Video)
       \<lparr>downloadPipeline := [(7, task7)],
        sourceBuffer := Some \<lparr>updating = False,
                               buffered = [\<lparr>range_start = 0, range_end = 20\<rparr>]\<rparr>\<rparr>"

definition restingVideo :: VideoElement where
  "restingVideo =
     \<lparr>v_currentTime = 30, v_paused = False, v_seeking = False, v_ended = False,
      v_readyState = 2, v_networkState = 2\<rparr>"

definition rebufferingEnv :: StallEnv where
  "rebufferingEnv =
     \<lparr>st_now = 10000, st_video = restingVideo,
      st_isPositionBuffered = Some (isPositionBuffered rebufferingPipeline),
      st_isDownloadingForPosition =
        Some (isDownloadingForPosition (sampleEnv 30) rebufferingPipeline)\<rparr>"

definition playingDetector :: StallDetector where
  "playingDetector =
     \<lparr>lastPlaybackTime = 30, lastCheckTime = 9900, consecutiveStallChecks = 0,
      isStalled = False, lastReadyState = 2, currentContext = Ctx_NORMAL_PLAYBACK,
      contextStartTime = 2000, hasPlaybackStarted = True, stallHistory = [],
      historySize = 5\<rparr>"

text \<open>The answers of the two callbacks at a position; a missing callback answers no.\<close>

definition positionBuffered :: "StallEnv \<Rightarrow> real \<Rightarrow> bool" where
  "positionBuffered env t = (case st_isPositionBuffered env of None \<Rightarrow> False | Some f \<Rightarrow> f t)"

definition downloadCovers :: "StallEnv \<Rightarrow> real \<Rightarrow> bool" where
  "downloadCovers env t =
     (case st_isDownloadingForPosition env of None \<Rightarrow> False | Some g \<Rightarrow> g t)"

text \<open>The same moment with a sink that holds seconds 0 to 31, the playhead included.\<close>

definition bufferedPipeline :: BufferController where
  "bufferedPipeline =
     rebufferingPipeline
       \<lparr>sourceBuffer := Some \<lparr>updating = False,
                               buffered = [\<lparr>range_start = 0, range_end = 31\<rparr>]\<rparr>\<rparr>"

definition bufferedEnv :: StallEnv where
  "bufferedEnv =
     \<lparr>st_now = 10000, st_video = restingVideo,
      st_isPositionBuffered = Some (isPositionBuffered bufferedPipeline),
      st_isDownloadingForPosition =
        Some (isDownloadingForPosition (sampleEnv 30) bufferedPipeline)\<rparr>"

section \<open>Properties of the blacklist\<close>

lemma blacklist_reset_simps [simp]:
  "blacklistedUrls (blacklist_reset s) = []"
  "blacklistedSegmentNumbers (blacklist_reset s) = blacklistedSegmentNumbers s"
  by (simp_all add: blacklist_reset_def)

text \<open>
  C10. \<^verbatim>\<open>BlacklistController.reset()\<close> empties the URL list and leaves the list of
  blacklisted segment numbers as it was: a segment number that was blacklisted before the
  reset still is afterwards (the answer of \<^verbatim>\<open>containsSegmentNumber\<close> does not change
  for any number), while \<^verbatim>\<open>containsUrl\<close> answers false for every URL; the empty
  string is no URL, and with assertions enabled \<^verbatim>\<open>containsUrl\<close> rejects it.
\<close>

theorem blacklist_reset_keeps_segment_numbers:
  "blacklistedSegmentNumbers (blacklist_reset s) = blacklistedSegmentNumbers s
   \<and> (containsSegmentNumber n s \<longrightarrow> containsSegmentNumber n (blacklist_reset s))
   \<and> containsSegmentNumber n (blacklist_reset s) = containsSegmentNumber n s
   \<and> blacklistedUrls (blacklist_reset s) = []
   \<and> ((enabled \<longrightarrow> u \<noteq> []) \<longrightarrow> containsUrl enabled u (blacklist_reset s) = Inr False)
   \<and> containsUrl enabled u (blacklist_reset s) \<noteq> Inr True"
  by (simp add: containsSegmentNumber_def containsUrl_def Assert_assert_def)

text \<open>
  A blacklist holding one URL and segment number 7: after the reset the number is still
  found and the URL is not.
\<close>

theorem blacklist_reset_keeps_segment_numbers_witness:
  "containsSegmentNumber 7
     \<lparr>blacklistedUrls = [''http://cdn/seg7.m4s''], blacklistedSegmentNumbers = [7]\<rparr>
   \<and> containsSegmentNumber 7
       (blacklist_reset
          \<lparr>blacklistedUrls = [''http://cdn/seg7.m4s''], blacklistedSegmentNumbers = [7]\<rparr>)
   \<and> ''http://cdn/seg7.m4s'' \<noteq> []
   \<and> containsUrl True ''http://cdn/seg7.m4s''
       (blacklist_reset
          \<lparr>blacklistedUrls = [''http://cdn/seg7.m4s''], blacklistedSegmentNumbers = [7]\<rparr>)
     = Inr False"
  using blacklist_reset_keeps_segment_numbers
    [where s = "\<lparr>blacklistedUrls = [''http://cdn/seg7.m4s''], blacklistedSegmentNumbers = [7]\<rparr>"
       and n = 7 and u = "''http://cdn/seg7.m4s''" and enabled = True]
  by (simp add: containsSegmentNumber_def)

section \<open>Properties of the quota-exceeded handler\<close>

lemma sync_fields [simp]:
  "quotaExceededInProgress (syncSegmentTrackingWithBuffer s) = quotaExceededInProgress s"
  "sourceBuffer (syncSegmentTrackingWithBuffer s) = sourceBuffer s"
  "criticalLevel (syncSegmentTrackingWithBuffer s) = criticalLevel s"
  "level (syncSegmentTrackingWithBuffer s) = level s"
  "mediaType (syncSegmentTrackingWithBuffer s) = mediaType s"
  "bufferingTarget (syncSegmentTrackingWithBuffer s) = bufferingTarget s"
  by (simp_all add: syncSegmentTrackingWithBuffer_def Let_def)

lemma removeExcess_fields [simp]:
  "criticalLevel (removeExcessBufferDataWithTracking env s) = criticalLevel s"
  "bufferingTarget (removeExcessBufferDataWithTracking env s) = bufferingTarget s"
  "mediaType (removeExcessBufferDataWithTracking env s) = mediaType s"
  by (simp_all add: removeExcessBufferDataWithTracking_def Let_def split: option.splits)

lemma setSegmentPointers_fields [simp]:
  "criticalLevel (setSegmentPointers n s) = criticalLevel s"
  "bufferingTarget (setSegmentPointers n s) = bufferingTarget s"
  by (simp_all add: setSegmentPointers_def)

lemma resetPointers_fields:
  assumes "resetSegmentPointersAfterQuotaExceeded env s = Inr s'"
  shows "criticalLevel s' = criticalLevel s \<and> bufferingTarget s' = bufferingTarget s"
  using assms
  by (auto simp: resetSegmentPointersAfterQuotaExceeded_def Let_def
           split: sum.splits option.splits if_splits)

lemma resetPointers_total:
  "(\<exists>s'. resetSegmentPointersAfterQuotaExceeded env s = Inr s')
     = (\<exists>rep. getCurrentRepresentation env s = Inr rep)"
  by (auto simp: resetSegmentPointersAfterQuotaExceeded_def Let_def
           split: sum.splits option.splits if_splits)

lemma updateBufferLevel_fields:
  "updateBufferLevel env s = (s', ev) \<Longrightarrow>
   criticalLevel s' = criticalLevel s \<and> bufferingTarget s' = bufferingTarget s"
  by (auto simp add: updateBufferLevel_def Let_def split: option.splits)

lemma getCurrentRepresentation_cong:
  "mediaType s' = mediaType s \<Longrightarrow> getCurrentRepresentation env s' = getCurrentRepresentation env s"
  by (simp add: getCurrentRepresentation_def)

lemma recovery_completed:
  assumes "quotaRecoverySteps env s = (Completed, s', evs)"
  shows "criticalLevel s' = Some (newCriticalLevel s)
         \<and> bufferingTarget s' = newCriticalLevel s
         \<and> (\<exists>ev2. evs = BUFFER_TARGET_CHANGED (newCriticalLevel s) # ev2
                \<and> (\<forall>e \<in> set ev2. \<forall>x. e \<noteq> BUFFER_TARGET_CHANGED x))"
proof -
  define s5 where "s5 = s\<lparr>criticalLevel := Some (newCriticalLevel s),
       bufferingTarget := newCriticalLevel s,
       downloadPipeline := [], appendQueue := [], appendQueueDuration := 0,
       replacementQueue := [], isProcessingReplacement := False,
       replacementsInProgress := [], isProcessingQueue := False\<rparr>"
  define s6 where "s6 = removeExcessBufferDataWithTracking env s5"
  from assms obtain s7 ev2 where
    r: "resetSegmentPointersAfterQuotaExceeded env s6 = Inr s7"
    and u: "updateBufferLevel env s7 = (s', ev2)"
    and e: "evs = BUFFER_TARGET_CHANGED (newCriticalLevel s) # ev2"
    by (auto simp: quotaRecoverySteps_def Let_def s5_def s6_def split: sum.splits prod.splits)
  have "criticalLevel s6 = Some (newCriticalLevel s)" "bufferingTarget s6 = newCriticalLevel s"
    by (simp_all add: s6_def s5_def)
  with resetPointers_fields[OF r] updateBufferLevel_fields[OF u]
  have "criticalLevel s' = Some (newCriticalLevel s)" "bufferingTarget s' = newCriticalLevel s"
    by simp_all
  moreover have "\<forall>e \<in> set ev2. \<forall>x. e \<noteq> BUFFER_TARGET_CHANGED x"
    using u by (auto simp: updateBufferLevel_def Let_def split: option.splits if_splits)
  ultimately show ?thesis using e by simp
qed

lemma recovery_completed_iff:
  "fst (quotaRecoverySteps env s) = Completed \<longleftrightarrow> (\<exists>rep. getCurrentRepresentation env s = Inr rep)"
proof -
  define s5 where "s5 = s\<lparr>criticalLevel := Some (newCriticalLevel s),
       bufferingTarget := newCriticalLevel s,
       downloadPipeline := [], appendQueue := [], appendQueueDuration := 0,
       replacementQueue := [], isProcessingReplacement := False,
       replacementsInProgress := [], isProcessingQueue := False\<rparr>"
  define s6 where "s6 = removeExcessBufferDataWithTracking env s5"
  have m: "getCurrentRepresentation env s6 = getCurrentRepresentation env s"
    by (rule getCurrentRepresentation_cong) (simp add: s6_def s5_def)
  have "fst (quotaRecoverySteps env s) = Completed
        \<longleftrightarrow> (\<exists>s7. resetSegmentPointersAfterQuotaExceeded env s6 = Inr s7)"
    by (auto simp: quotaRecoverySteps_def Let_def s5_def s6_def split: sum.splits prod.splits)
  then show ?thesis by (simp add: resetPointers_total m)
qed

lemma handle_completed_iff:
  "fst (handleQuotaExceeded env n s) = Completed
     \<longleftrightarrow> (\<not> quotaExceededInProgress s
         \<and> (\<exists>sb. sourceBuffer s = Some sb \<and> \<not> updating sb)
         \<and> (\<exists>rep. getCurrentRepresentation env s = Inr rep))"
proof -
  have m: "getCurrentRepresentation env ((syncSegmentTrackingWithBuffer s)\<lparr>quotaExceededInProgress := True\<rparr>)
        = getCurrentRepresentation env s"
    by (rule getCurrentRepresentation_cong) simp
  show ?thesis
    by (auto simp: handleQuotaExceeded_def Let_def recovery_completed_iff m split: option.splits)
qed

lemma newCriticalLevel_sync:
  "newCriticalLevel ((syncSegmentTrackingWithBuffer s)\<lparr>quotaExceededInProgress := True\<rparr>) = newCriticalLevel s"
  by (simp add: newCriticalLevel_def split: option.splits)

text \<open>
  C5. Every complete run of the quota-exceeded handler multiplies the existing critical
  level, or the current buffer level when none is set, by 0.8, floors the product at
  10 s, stores it as the critical level and as \<^verbatim>\<open>bufferingTarget\<close>, and publishes it in
  the one \<^verbatim>\<open>BUFFER_TARGET_CHANGED\<close> event of the run, which comes first; from a level of
  70 s and no critical level the target is 56 s.
\<close>

theorem quota_run_sets_critical_level:
  assumes "handleQuotaExceeded env n s = (Completed, s', evs)"
  shows "criticalLevel s' =
           Some (max 10 ((case criticalLevel s of None \<Rightarrow> level s | Some c \<Rightarrow> c) * 0.8))
         \<and> bufferingTarget s' =
             max 10 ((case criticalLevel s of None \<Rightarrow> level s | Some c \<Rightarrow> c) * 0.8)
         \<and> hd evs = BUFFER_TARGET_CHANGED (bufferingTarget s')
         \<and> (\<forall>x. BUFFER_TARGET_CHANGED x \<in> set evs \<longrightarrow> x = bufferingTarget s')
         \<and> (criticalLevel s = None \<and> level s = 70 \<longrightarrow> bufferingTarget s' = 56)"
proof -
  let ?s2 = "(syncSegmentTrackingWithBuffer s)\<lparr>quotaExceededInProgress := True\<rparr>"
  from assms have "quotaRecoverySteps env ?s2 = (Completed, s', evs)"
    by (auto simp: handleQuotaExceeded_def Let_def split: option.splits if_splits)
  from recovery_completed[OF this]
  have c: "criticalLevel s' = Some (newCriticalLevel s)"
    and b: "bufferingTarget s' = newCriticalLevel s"
    and e: "\<exists>ev2. evs = BUFFER_TARGET_CHANGED (newCriticalLevel s) # ev2
                \<and> (\<forall>e \<in> set ev2. \<forall>x. e \<noteq> BUFFER_TARGET_CHANGED x)"
    by (simp_all add: newCriticalLevel_sync)
  have n: "newCriticalLevel s = max 10 ((case criticalLevel s of None \<Rightarrow> level s | Some c \<Rightarrow> c) * 0.8)"
    by (simp add: newCriticalLevel_def quotaExceededCorrectionFactor_def split: option.splits)
  show ?thesis using c b e n by auto
qed


text \<open>
  The run from a level of 70 s completes, and the target it publishes is 56 s.
\<close>

theorem quota_run_sets_critical_level_witness:
  "handleQuotaExceeded (sampleEnv 10) 0 quotaState70
     = (Completed, fst (snd (handleQuotaExceeded (sampleEnv 10) 0 quotaState70)),
        snd (snd (handleQuotaExceeded (sampleEnv 10) 0 quotaState70)))
   \<and> criticalLevel quotaState70 = None \<and> level quotaState70 = 70
   \<and> criticalLevel (fst (snd (handleQuotaExceeded (sampleEnv 10) 0 quotaState70))) = Some 56
   \<and> bufferingTarget (fst (snd (handleQuotaExceeded (sampleEnv 10) 0 quotaState70))) = 56
   \<and> hd (snd (snd (handleQuotaExceeded (sampleEnv 10) 0 quotaState70)))
       = BUFFER_TARGET_CHANGED 56"
proof -
  have "fst (handleQuotaExceeded (sampleEnv 10) 0 quotaState70) = Completed"
    by (simp add: handle_completed_iff quotaState70_def newBufferController_def
          getCurrentRepresentation_def sampleEnv_def)
  then have run: "handleQuotaExceeded (sampleEnv 10) 0 quotaState70
     = (Completed, fst (snd (handleQuotaExceeded (sampleEnv 10) 0 quotaState70)),
        snd (snd (handleQuotaExceeded (sampleEnv 10) 0 quotaState70)))"
    by (metis prod.collapse)
  have st: "criticalLevel quotaState70 = None" "level quotaState70 = 70"
    by (simp_all add: quotaState70_def newBufferController_def)
  from quota_run_sets_critical_level [OF run] st run show ?thesis
    by simp
qed

text \<open>
  C6, as the handler is written. A call that finds \<^verbatim>\<open>quotaExceededInProgress\<close> set
  returns at the guard, publishes nothing and leaves the queues, the segment pointers,
  the critical level, the target and the flags as they were; but the tracking sync runs
  before the guard, so entries of the buffered-segments map whose interval overlaps no
  range of the sink are dropped. When every tracked segment overlaps a range, the call
  changes nothing at all.
\<close>

theorem quota_reentry_only_syncs:
  assumes "quotaExceededInProgress s"
  shows "handleQuotaExceeded env n s
           = (AlreadyInProgress,
              s\<lparr>bufferedSegments :=
                   filter (\<lambda>(segNum, segInfo). list_ex (overlapsRange segInfo) (getAllBufferRanges s))
                          (bufferedSegments s)\<rparr>,
              [])
         \<and> ((\<forall>(segNum, segInfo) \<in> set (bufferedSegments s).
                \<exists>r \<in> set (getAllBufferRanges s). overlapsRange segInfo r)
              \<longrightarrow> handleQuotaExceeded env n s = (AlreadyInProgress, s, []))"
proof -
  have 1: "handleQuotaExceeded env n s = (AlreadyInProgress, syncSegmentTrackingWithBuffer s, [])"
    using assms by (simp add: handleQuotaExceeded_def Let_def)
  have 2: "(\<forall>(segNum, segInfo) \<in> set (bufferedSegments s).
                \<exists>r \<in> set (getAllBufferRanges s). overlapsRange segInfo r)
       \<Longrightarrow> filter (\<lambda>(segNum, segInfo). list_ex (overlapsRange segInfo) (getAllBufferRanges s))
                          (bufferedSegments s) = bufferedSegments s"
    by (rule filter_True) (auto simp: list_ex_iff)
  show ?thesis using 1 2 by (auto simp: syncSegmentTrackingWithBuffer_def Let_def)
qed

text \<open>
  While the sink still holds seconds 0 to 30, and with them the tracked segment 5, the
  repeated call changes nothing.
\<close>

theorem quota_reentry_only_syncs_witness:
  "quotaExceededInProgress
     (recoveringState\<lparr>sourceBuffer :=
        Some \<lparr>updating = False, buffered = [\<lparr>range_start = 0, range_end = 30\<rparr>]\<rparr>\<rparr>)
   \<and> bufferedSegments
         (recoveringState\<lparr>sourceBuffer :=
            Some \<lparr>updating = False, buffered = [\<lparr>range_start = 0, range_end = 30\<rparr>]\<rparr>\<rparr>)
       = [(5, segment5)]
   \<and> getAllBufferRanges
         (recoveringState\<lparr>sourceBuffer :=
            Some \<lparr>updating = False, buffered = [\<lparr>range_start = 0, range_end = 30\<rparr>]\<rparr>\<rparr>)
       = [\<lparr>range_start = 0, range_end = 30\<rparr>]
   \<and> overlapsRange segment5 \<lparr>range_start = 0, range_end = 30\<rparr>
   \<and> handleQuotaExceeded (sampleEnv 10) 0
         (recoveringState\<lparr>sourceBuffer :=
            Some \<lparr>updating = False, buffered = [\<lparr>range_start = 0, range_end = 30\<rparr>]\<rparr>\<rparr>)
       = (AlreadyInProgress,
          recoveringState\<lparr>sourceBuffer :=
            Some \<lparr>updating = False, buffered = [\<lparr>range_start = 0, range_end = 30\<rparr>]\<rparr>\<rparr>,
          [])"
proof -
  let ?s = "recoveringState\<lparr>sourceBuffer :=
              Some \<lparr>updating = False, buffered = [\<lparr>range_start = 0, range_end = 30\<rparr>]\<rparr>\<rparr>"
  have p: "quotaExceededInProgress ?s"
    by (simp add: recoveringState_def newBufferController_def)
  have b: "bufferedSegments ?s = [(5, segment5)]"
    by (simp add: recoveringState_def newBufferController_def)
  have r: "getAllBufferRanges ?s = [\<lparr>range_start = 0, range_end = 30\<rparr>]"
    by (simp add: getAllBufferRanges_def)
  have v: "overlapsRange segment5 \<lparr>range_start = 0, range_end = 30\<rparr>"
    by (simp add: overlapsRange_def segment5_def)
  have o: "\<forall>(segNum, segInfo) \<in> set (bufferedSegments ?s).
             \<exists>r \<in> set (getAllBufferRanges ?s). overlapsRange segInfo r"
    unfolding b r using v by simp
  from quota_reentry_only_syncs [OF p, where env = "sampleEnv 10" and n = 0] p b r v o
  show ?thesis by blast
qed

text \<open>
  The repeated call is not without effect: segment 5, tracked at seconds 20 to 24 while
  the sink holds seconds 0 to 10, is gone from the map afterwards.
\<close>

theorem quota_reentry_changes_buffered_segments:
  "quotaExceededInProgress recoveringState
   \<and> bufferedSegments recoveringState = [(5, segment5)]
   \<and> bufferedSegments (fst (snd (handleQuotaExceeded (sampleEnv 10) 0 recoveringState))) = []
   \<and> fst (snd (handleQuotaExceeded (sampleEnv 10) 0 recoveringState)) \<noteq> recoveringState"
proof -
  have "bufferedSegments (fst (snd (handleQuotaExceeded (sampleEnv 10) 0 recoveringState))) = []"
    by (simp add: handleQuotaExceeded_def Let_def recoveringState_def newBufferController_def
        syncSegmentTrackingWithBuffer_def getAllBufferRanges_def overlapsRange_def segment5_def)
  moreover have "bufferedSegments recoveringState = [(5, segment5)]"
    "quotaExceededInProgress recoveringState"
    by (simp_all add: recoveringState_def newBufferController_def)
  ultimately show ?thesis by auto
qed

section \<open>Properties of the replacement search\<close>

lemma scanBuffered_char:
  "scanBuffered s ct thr xs = (kept, cands) \<Longrightarrow>
     kept = filter (\<lambda>(n, seg). \<not> bsi_endTime seg < ct) xs
     \<and> cands = map snd (filter (\<lambda>(n, seg). \<not> bsi_endTime seg < ct \<and> \<not> bsi_startTime seg < thr
                   \<and> \<not> bsi_bitrate seg \<ge> currentRepresentationBitrate s
                   \<and> \<not> isBeingReplaced s seg) xs)"
proof (induction xs arbitrary: kept cands)
  case Nil
  then show ?case by simp
next
  case (Cons x xs)
  obtain n seg where x: "x = (n, seg)" by (cases x)
  obtain k c where r: "scanBuffered s ct thr xs = (k, c)" by (cases "scanBuffered s ct thr xs")
  from Cons.IH[OF r] Cons.prems show ?case
    by (auto simp: x r split: if_splits)
qed

lemma findReplaceableSegments_char:
  assumes "findReplaceableSegments env s = Inr (cands, s')"
  shows "set cands = {seg. \<exists>n. (n, seg) \<in> set (bufferedSegments s)
                      \<and> bsi_endTime seg \<ge> env_currentTime env
                      \<and> bsi_startTime seg \<ge> env_currentTime env + 4.5
                      \<and> bsi_bitrate seg < currentRepresentationBitrate s
                      \<and> \<not> isBeingReplaced s seg}
         \<and> sorted (map bsi_startTime cands)
         \<and> s' = s\<lparr>bufferedSegments :=
                     filter (\<lambda>(n, seg). \<not> bsi_endTime seg < env_currentTime env) (bufferedSegments s)\<rparr>"
proof -
  obtain k c where r: "scanBuffered s (env_currentTime env) (env_currentTime env + 3 * replacementSafetyFactor)
      (bufferedSegments s) = (k, c)"
    by (cases "scanBuffered s (env_currentTime env) (env_currentTime env + 3 * replacementSafetyFactor)
      (bufferedSegments s)")
  from assms r have c: "cands = sort_key bsi_startTime c" and s': "s' = s\<lparr>bufferedSegments := k\<rparr>"
    by (auto simp: findReplaceableSegments_def Let_def split: sum.splits)
  note ch = scanBuffered_char[OF r]
  have "3 * replacementSafetyFactor = 4.5" by (simp add: replacementSafetyFactor_def)
  with ch c s' show ?thesis
    by (auto simp: not_less not_le image_iff)
qed

text \<open>
  C9 at a concrete pipeline state. The current representation has four-second segments
  and 6000 bit/s, the playhead is at second 3, and segment 2 (seconds 8 to 12, 1000
  bit/s) is buffered and not being replaced. The specification's threshold is
  3 + 4 * 1.5 = 9 s, so segment 2 is no candidate; the code measures against
  3 + 3 * 1.5 = 7.5 s, returns segment 2 and dispatches it.
\<close>

theorem replacement_threshold_fixed_at_4_5:
  "list_all (\<lambda>r. ref_endTime r - ref_startTime r = 4) (rep_segmentIndex rep6000)
   \<and> env_currentVideoRepresentation (sampleEnv 3) = Some rep6000
   \<and> findReplaceableSegments (sampleEnv 3) upSwitchedState = Inr ([segment2], upSwitchedState)
   \<and> shouldDownloadReplacement (sampleEnv 3) upSwitchedState = Inr (Some segment2, upSwitchedState)
   \<and> \<not> replacementCandidate_spec 3 4 upSwitchedState segment2
   \<and> bsi_startTime segment2 < 3 + 4 * 1.5"
  apply (intro conjI)
  subgoal by (simp add: rep6000_def fourSecondRefs_def list_all_iff)
  subgoal by (simp add: sampleEnv_def)
  subgoal by (simp add: findReplaceableSegments_def Let_def sampleEnv_def upSwitchedState_def newBufferController_def
        getCurrentRepresentation_def segment2_def replacementSafetyFactor_def isBeingReplaced_def)
  subgoal by (simp add: shouldDownloadReplacement_def fastSwitchingEnabled_def findReplaceableSegments_def Let_def sampleEnv_def upSwitchedState_def newBufferController_def
        getCurrentRepresentation_def segment2_def replacementSafetyFactor_def isBeingReplaced_def)
  subgoal by (simp add: replacementCandidate_spec_def segment2_def)
  subgoal by (simp add: segment2_def)
  done


section \<open>Properties of the bandwidth estimator\<close>

text \<open>
  C7, as the estimator is written. With assertions enabled, a sample whose duration or
  byte count is not a finite positive number raises an \<^verbatim>\<open>AssertionError\<close> (it does not
  fail silently) and leaves the estimator untouched. Whatever the assertion setting, a
  sample with fewer than 16000 bytes (the constant is \<^verbatim>\<open>16e3\<close>, not 16 KiB = 16384)
  changes no state, and when both arguments are finite and positive it returns normally.
\<close>

theorem sample_rejects_or_discards:
  "((\<not> (js_gt d (Num 0) \<and> js_isFinite d) \<or> \<not> (js_gt b (Num 0) \<and> js_isFinite b))
      \<longrightarrow> BandwidthEstimator_sample True d b s = (Inl AssertionError, s))
   \<and> (js_lt b (Num 16000) \<longrightarrow> snd (BandwidthEstimator_sample enabled d b s) = s)
   \<and> (js_gt d (Num 0) \<and> js_isFinite d \<and> js_gt b (Num 0) \<and> js_isFinite b \<and> js_lt b (Num 16000)
      \<longrightarrow> BandwidthEstimator_sample enabled d b s = (Inr (), s))"
  by (auto simp: BandwidthEstimator_sample_def Assert_assert_def MIN_BYTES_def split: sum.splits)

text \<open>
  A NaN duration is rejected with an error, an 8000-byte transfer over 100 ms is dropped
  without one; neither changes the fresh estimator.
\<close>

theorem sample_rejects_or_discards_witness:
  "\<not> (js_gt NaN (Num 0) \<and> js_isFinite NaN)
   \<and> BandwidthEstimator_sample True NaN (Num 20000) (newBandwidthEstimator True None)
       = (Inl AssertionError, newBandwidthEstimator True None)
   \<and> js_gt (Num 100) (Num 0) \<and> js_isFinite (Num 100)
   \<and> js_gt (Num 8000) (Num 0) \<and> js_isFinite (Num 8000) \<and> js_lt (Num 8000) (Num 16000)
   \<and> BandwidthEstimator_sample True (Num 100) (Num 8000) (newBandwidthEstimator True None)
       = (Inr (), newBandwidthEstimator True None)"
  using sample_rejects_or_discards
      [where d = NaN and b = "Num 20000" and s = "newBandwidthEstimator True None"
         and enabled = True]
    sample_rejects_or_discards
      [where d = "Num 100" and b = "Num 8000" and s = "newBandwidthEstimator True None"
         and enabled = True]
  by (simp add: js_gt_def)

text \<open>
  The contract as stated fails three ways. With assertions enabled a zero duration raises
  an error.
  With assertions disabled, as the shipped entry script sets them, a negative duration
  goes through and the sample is counted. And 16200 bytes, fewer than 16 KiB, is an
  accepted sample.
\<close>

theorem sample_not_silent_counterexample:
  "fst (BandwidthEstimator_sample True (Num 0) (Num 20000) (newBandwidthEstimator True None))
     = Inl AssertionError
   \<and> sampleCount (newBandwidthEstimator True None) = Num 0
   \<and> sampleCount (snd (BandwidthEstimator_sample False (Num (- 5)) (Num 20000)
                        (newBandwidthEstimator True None))) = Num 1
   \<and> (16200 :: real) < 16 * 1024
   \<and> sampleCount (snd (BandwidthEstimator_sample True (Num 100) (Num 16200)
                        (newBandwidthEstimator True None))) = Num 1
   \<and> bytesSampled (snd (BandwidthEstimator_sample True (Num 100) (Num 16200)
                        (newBandwidthEstimator True None))) = Num 16200"
  by (simp add: BandwidthEstimator_sample_def Assert_assert_def MIN_BYTES_def js_gt_def
        newBandwidthEstimator_def Let_def split: sum.splits)

text \<open>
  C8, as the estimator is written. \<^verbatim>\<open>reset()\<close> zeroes the sample count and the
  accumulated byte count and nothing else: both moving averages keep their \<open>\<alpha>\<close>, their
  estimate and their accumulated weight, and the network-information fields stay.
\<close>

theorem reset_zeroes_counters_only:
  "sampleCount (BandwidthEstimator_reset s) = Num 0
   \<and> bytesSampled (BandwidthEstimator_reset s) = Num 0
   \<and> fast (BandwidthEstimator_reset s) = fast s
   \<and> slow (BandwidthEstimator_reset s) = slow s
   \<and> useNetworkInformation (BandwidthEstimator_reset s) = useNetworkInformation s
   \<and> navDownlink (BandwidthEstimator_reset s) = navDownlink s
   \<and> BandwidthEstimator.more (BandwidthEstimator_reset s) = BandwidthEstimator.more s"
  by (simp add: BandwidthEstimator_reset_def)

text \<open>
  One accepted sample of 20000 bytes over a second, then a reset: the fast average still
  carries the weight 1 and a non-zero estimate.
\<close>

theorem reset_keeps_ewma_state_counterexample:
  "totalWeight (fast (BandwidthEstimator_reset
      (snd (BandwidthEstimator_sample True (Num 1000) (Num 20000)
              (newBandwidthEstimator True None))))) = Num 1
   \<and> totalWeight (slow (BandwidthEstimator_reset
      (snd (BandwidthEstimator_sample True (Num 1000) (Num 20000)
              (newBandwidthEstimator True None))))) = Num 1
   \<and> estimate (fast (BandwidthEstimator_reset
      (snd (BandwidthEstimator_sample True (Num 1000) (Num 20000)
              (newBandwidthEstimator True None))))) \<noteq> Num 0"
  by (simp add: BandwidthEstimator_sample_def Assert_assert_def MIN_BYTES_def js_gt_def
        newBandwidthEstimator_def Let_def BandwidthEstimator_reset_def Emwa_sample_def newEmwa_def
        js_pow_def js_sub_def calculateAlpha_def split: sum.splits)

theorem reset_zeroes_counters_only_witness:
  "sampleCount (snd (BandwidthEstimator_sample True (Num 1000) (Num 20000)
              (newBandwidthEstimator True None))) = Num 1
   \<and> sampleCount (BandwidthEstimator_reset
      (snd (BandwidthEstimator_sample True (Num 1000) (Num 20000)
              (newBandwidthEstimator True None)))) = Num 0
   \<and> totalWeight (fast (BandwidthEstimator_reset
      (snd (BandwidthEstimator_sample True (Num 1000) (Num 20000)
              (newBandwidthEstimator True None))))) = Num 1"
  using reset_zeroes_counters_only
     [where s = "snd (BandwidthEstimator_sample True (Num 1000) (Num 20000)
              (newBandwidthEstimator True None))"]
  by (simp add: BandwidthEstimator_sample_def Assert_assert_def MIN_BYTES_def js_gt_def
        newBandwidthEstimator_def Let_def Emwa_sample_def newEmwa_def
        js_pow_def js_sub_def calculateAlpha_def split: sum.splits)


section \<open>Properties of the quality selector\<close>

text \<open>
  C1, as the selector is written. While \<open>now - lastSwitchTime\<close> is below
  \<^verbatim>\<open>switchCooldownPeriod\<close> (5000 ms by default) \<^verbatim>\<open>checkPlaybackQuality()\<close> returns
  "no change", emits nothing and leaves the selector as it was, with no exception: the
  cooldown test is its first statement, and the dropped-frames strategy is not consulted
  before the cooldown is over.
\<close>

theorem cooldown_blocks_every_strategy:
  assumes "abr_now env - lastSwitchTime s < switchCooldownPeriod (config s)"
  shows "checkPlaybackQuality enabled env s = (Inr False, s, [])"
  using assms by (simp add: checkPlaybackQuality_def Let_def)

lemma dropping_choice:
  "fst (DroppedFramesAbr_chooseRepresentation True (droppingEnv now)
          (droppedFramesStrategy cooldownState)) = Inr (Some (plainRep ''r0'' 1000))"
  by (simp add: DroppedFramesAbr_chooseRepresentation_def shouldLowerResolution_def
        getFrameHistory_def droppingEnv_def cooldownState_def newAbrController_def
        Assert_assert_def ladder2_def plainRep_def Let_def MINIMUM_SAMPLE_SIZE_def
        DROPPED_FRAMES_PERCENTAGE_THRESHOLD_def)

text \<open>Two seconds after a switch the check is cut short.\<close>

theorem cooldown_blocks_every_strategy_witness:
  "abr_now (droppingEnv 3000) - lastSwitchTime cooldownState
     < switchCooldownPeriod (config cooldownState)
   \<and> checkPlaybackQuality True (droppingEnv 3000) cooldownState = (Inr False, cooldownState, [])"
proof -
  have h: "abr_now (droppingEnv 3000) - lastSwitchTime cooldownState
     < switchCooldownPeriod (config cooldownState)"
    by (simp add: droppingEnv_def cooldownState_def newAbrController_def DEFAULT_CONFIG_def)
  from cooldown_blocks_every_strategy[OF h, of True] h show ?thesis by simp
qed

text \<open>
  The dropped-frames strategy would step down (400 frames sampled, a quarter of them
  dropped, no downgrade on record), and once the cooldown is over the same check does
  request the lower representation; within the cooldown nothing is requested.
\<close>

theorem cooldown_not_bypassed_by_dropped_frames:
  "abr_now (droppingEnv 3000) - lastSwitchTime cooldownState = 2000
   \<and> switchCooldownPeriod (config cooldownState) = 5000
   \<and> fst (DroppedFramesAbr_chooseRepresentation True (droppingEnv 3000)
            (droppedFramesStrategy cooldownState)) = Inr (Some (plainRep ''r0'' 1000))
   \<and> checkPlaybackQuality True (droppingEnv 3000) cooldownState = (Inr False, cooldownState, [])
   \<and> fst (checkPlaybackQuality True (droppingEnv 7000) cooldownState) = Inr True
   \<and> snd (snd (checkPlaybackQuality True (droppingEnv 7000) cooldownState))
       = [QUALITY_CHANGE_REQUESTED (plainRep ''r0'' 1000) DroppedFrames]"
proof (intro conjI)
  show "abr_now (droppingEnv 3000) - lastSwitchTime cooldownState = 2000"
    by (simp add: droppingEnv_def cooldownState_def newAbrController_def)
  show "switchCooldownPeriod (config cooldownState) = 5000"
    by (simp add: cooldownState_def newAbrController_def DEFAULT_CONFIG_def)
  show "fst (DroppedFramesAbr_chooseRepresentation True (droppingEnv 3000)
            (droppedFramesStrategy cooldownState)) = Inr (Some (plainRep ''r0'' 1000))"
    by (rule dropping_choice)
  show "checkPlaybackQuality True (droppingEnv 3000) cooldownState = (Inr False, cooldownState, [])"
    by (simp add: checkPlaybackQuality_def Let_def droppingEnv_def cooldownState_def
          newAbrController_def DEFAULT_CONFIG_def)
  define d where "d = snd (DroppedFramesAbr_chooseRepresentation True (droppingEnv 7000)
                               (droppedFramesStrategy cooldownState))"
  have ch: "DroppedFramesAbr_chooseRepresentation True (droppingEnv 7000)
              (droppedFramesStrategy cooldownState) = (Inr (Some (plainRep ''r0'' 1000)), d)"
    using dropping_choice[of 7000] by (simp add: d_def prod_eq_iff)
  have facts: "\<not> abr_now (droppingEnv 7000) - lastSwitchTime cooldownState
                   < switchCooldownPeriod (config cooldownState)"
    "abrEnabled (config cooldownState)"
    "abr_currentVideoRepresentation (droppingEnv 7000) = Some (plainRep ''r1'' 2000)"
    "\<not> smoothingActive cooldownState"
    by (simp_all add: droppingEnv_def cooldownState_def newAbrController_def DEFAULT_CONFIG_def)
  have run: "checkPlaybackQuality True (droppingEnv 7000) cooldownState
     = (Inr True,
        cooldownState\<lparr>droppedFramesStrategy := d,
                      currentStrategy := DroppedFrames, lastSwitchTime := 7000\<rparr>,
        [QUALITY_CHANGE_REQUESTED (plainRep ''r0'' 1000) DroppedFrames])"
    unfolding checkPlaybackQuality_def Let_def
    by (simp add: facts ch triggerChange_def) (simp add: plainRep_def droppingEnv_def)
  show "fst (checkPlaybackQuality True (droppingEnv 7000) cooldownState) = Inr True"
    by (simp add: run)
  show "snd (snd (checkPlaybackQuality True (droppingEnv 7000) cooldownState))
       = [QUALITY_CHANGE_REQUESTED (plainRep ''r0'' 1000) DroppedFrames]"
    by (simp add: run)
qed

section \<open>Properties of the stall detector\<close>

lemma shouldIgnoreStall_cases:
  "(positionBuffered env t \<and> downloadCovers env t \<longrightarrow> shouldIgnoreStall env s t)
   \<and> (\<not> positionBuffered env t \<longrightarrow>
        shouldIgnoreStall env s t
          = ((t < 0.1 \<and> \<not> hasPlaybackStarted s)
             \<or> (v_networkState (st_video env) = NETWORK_LOADING
                 \<and> currentContext s \<noteq> Ctx_NORMAL_PLAYBACK)))"
  by (auto simp: shouldIgnoreStall_def positionBuffered_def downloadCovers_def Let_def)

lemma shouldIgnoreStall_readyState:
  "shouldIgnoreStall env (s\<lparr>lastReadyState := r\<rparr>) t = shouldIgnoreStall env s t"
  by (simp add: shouldIgnoreStall_def Let_def)

lemma detectStall_candidate:
  assumes "isStallCandidate env s"
  shows "consecutiveStallChecks (snd (detectStall env s))
           = (if shouldIgnoreStall env s (v_currentTime (st_video env)) then 0
              else consecutiveStallChecks s + 1)"
  using assms
  by (simp add: isStallCandidate_def detectStall_def Let_def CHECK_INTERVAL_MS_def
        shouldIgnoreStall_readyState updateStallHistory_def)

text \<open>
  C2, as the detector is written. A stall candidate is suppressed (the sample reports no
  stall and the run of consecutive candidates restarts at 0) when the playhead position
  is buffered and a download covers it. When the position is not buffered a covering
  download has no say: unless the sample falls in the first 0.1 s before playback has
  started, or the network state is LOADING outside normal playback, the candidate
  counts toward confirmation.
\<close>

theorem stall_suppressed_only_when_buffered:
  assumes "isStallCandidate env s"
  shows "(positionBuffered env (v_currentTime (st_video env))
          \<and> downloadCovers env (v_currentTime (st_video env))
          \<longrightarrow> consecutiveStallChecks (snd (detectStall env s)) = 0
              \<and> \<not> fst (detectStall env s))
         \<and> (\<not> positionBuffered env (v_currentTime (st_video env))
            \<and> \<not> (v_currentTime (st_video env) < 0.1 \<and> \<not> hasPlaybackStarted s)
            \<and> \<not> (v_networkState (st_video env) = NETWORK_LOADING
                   \<and> currentContext s \<noteq> Ctx_NORMAL_PLAYBACK)
            \<longrightarrow> consecutiveStallChecks (snd (detectStall env s)) = consecutiveStallChecks s + 1)"
proof -
  have "positionBuffered env (v_currentTime (st_video env))
          \<and> downloadCovers env (v_currentTime (st_video env))
        \<longrightarrow> \<not> fst (detectStall env s)"
    using assms shouldIgnoreStall_cases[of env "v_currentTime (st_video env)" s]
    by (auto simp: isStallCandidate_def detectStall_def Let_def CHECK_INTERVAL_MS_def
          shouldIgnoreStall_readyState updateStallHistory_def)
  then show ?thesis
    using detectStall_candidate[OF assms]
      shouldIgnoreStall_cases[of env "v_currentTime (st_video env)" s]
    by auto
qed

lemma seg_at_30: "getSegmentAtTime fourSecondRefs 30 = Some \<lparr>ref_segmentNumber = 7, ref_startTime = 28, ref_endTime = 32\<rparr>"
  by (simp add: getSegmentAtTime_def fourSecondRefs_def Let_def)

lemma rebuffering_facts:
  "\<not> positionBuffered rebufferingEnv 30" "downloadCovers rebufferingEnv 30"
  by (simp_all add: positionBuffered_def downloadCovers_def rebufferingEnv_def
        isPositionBuffered_def isDownloadingForPosition_def rebufferingPipeline_def
        newBufferController_def sampleEnv_def rep6000_def seg_at_30 Let_def)

text \<open>
  A candidate at second 30 in normal playback, where the sink holds seconds 0 to 20 only
  and segment 7 (seconds 28 to 32) is being downloaded: it is not ignored, and the run
  of consecutive candidates goes from 0 to 1.
\<close>

theorem rebuffer_candidate_still_counts:
  "isStallCandidate rebufferingEnv playingDetector
   \<and> \<not> isPositionBuffered rebufferingPipeline 30
   \<and> isDownloadingForPosition (sampleEnv 30) rebufferingPipeline 30
   \<and> \<not> shouldIgnoreStall rebufferingEnv playingDetector 30
   \<and> consecutiveStallChecks playingDetector = 0
   \<and> consecutiveStallChecks (snd (detectStall rebufferingEnv playingDetector)) = 1
   \<and> stallHistory (snd (detectStall rebufferingEnv playingDetector)) = [True]"
proof -
  have c: "isStallCandidate rebufferingEnv playingDetector"
    by (simp add: isStallCandidate_def rebufferingEnv_def playingDetector_def restingVideo_def)
  have b: "\<not> isPositionBuffered rebufferingPipeline 30"
    "isDownloadingForPosition (sampleEnv 30) rebufferingPipeline 30"
    using rebuffering_facts
    by (simp_all add: positionBuffered_def downloadCovers_def rebufferingEnv_def)
  have i: "\<not> shouldIgnoreStall rebufferingEnv playingDetector 30"
    using shouldIgnoreStall_cases[of rebufferingEnv 30 playingDetector] rebuffering_facts
    by (simp add: playingDetector_def)
  have v: "v_currentTime (st_video rebufferingEnv) = 30"
    by (simp add: rebufferingEnv_def restingVideo_def)
  have n: "consecutiveStallChecks (snd (detectStall rebufferingEnv playingDetector)) = 1"
    using detectStall_candidate[OF c] i by (simp add: v playingDetector_def)
  have h: "stallHistory (snd (detectStall rebufferingEnv playingDetector)) = [True]"
    using i
    by (simp add: detectStall_def Let_def rebufferingEnv_def playingDetector_def restingVideo_def
          CHECK_INTERVAL_MS_def updateStallHistory_def STALL_THRESHOLD_MS_def
          CONSECUTIVE_CHECKS_THRESHOLD_def)
  show ?thesis using c b i n h by (simp add: playingDetector_def)
qed

text \<open>
  With the playhead inside the sink's range and segment 7 being downloaded the candidate
  is suppressed; with the sink ending at second 20 it counts.
\<close>

theorem stall_suppressed_only_when_buffered_witness:
  "isStallCandidate bufferedEnv playingDetector
   \<and> positionBuffered bufferedEnv 30 \<and> downloadCovers bufferedEnv 30
   \<and> consecutiveStallChecks (snd (detectStall bufferedEnv playingDetector)) = 0
   \<and> \<not> fst (detectStall bufferedEnv playingDetector)
   \<and> isStallCandidate rebufferingEnv playingDetector
   \<and> \<not> positionBuffered rebufferingEnv 30
   \<and> consecutiveStallChecks (snd (detectStall rebufferingEnv playingDetector)) = 1"
proof -
  have c1: "isStallCandidate bufferedEnv playingDetector"
    by (simp add: isStallCandidate_def bufferedEnv_def playingDetector_def restingVideo_def)
  have c2: "isStallCandidate rebufferingEnv playingDetector"
    by (simp add: isStallCandidate_def rebufferingEnv_def playingDetector_def restingVideo_def)
  have b1: "positionBuffered bufferedEnv 30" "downloadCovers bufferedEnv 30"
    by (simp_all add: positionBuffered_def downloadCovers_def bufferedEnv_def
          bufferedPipeline_def isPositionBuffered_def isDownloadingForPosition_def
          rebufferingPipeline_def newBufferController_def sampleEnv_def rep6000_def
          seg_at_30 Let_def)
  have v: "v_currentTime (st_video bufferedEnv) = 30"
    "v_currentTime (st_video rebufferingEnv) = 30"
    "v_networkState (st_video rebufferingEnv) = NETWORK_LOADING"
    "currentContext playingDetector = Ctx_NORMAL_PLAYBACK"
    "hasPlaybackStarted playingDetector"
    "consecutiveStallChecks playingDetector = 0"
    by (simp_all add: bufferedEnv_def rebufferingEnv_def restingVideo_def playingDetector_def
          NETWORK_LOADING_def)
  from stall_suppressed_only_when_buffered[OF c1] stall_suppressed_only_when_buffered[OF c2]
    c1 c2 b1 rebuffering_facts v
  show ?thesis by simp
qed

section \<open>Properties of the BOLA controller\<close>

lemma equal_scores_level:
  assumes bi: "rep_bitrate (representations st ! i) > 0"
      and bp: "rep_bitrate (representations st ! (i - 1)) > 0"
      and ne: "rep_bitrate (representations st ! i) \<noteq> rep_bitrate (representations st ! (i - 1))"
  shows "bolaScore st i b = bolaScore st (i - 1) b
         \<longleftrightarrow> b = vp st * (utilities st ! i * rep_bitrate (representations st ! (i - 1))
                        - utilities st ! (i - 1) * rep_bitrate (representations st ! i)
                        + (gp st - 1) * (rep_bitrate (representations st ! (i - 1))
                                         - rep_bitrate (representations st ! i)))
                / (rep_bitrate (representations st ! (i - 1)) - rep_bitrate (representations st ! i))"
proof -
  define Bi where "Bi = rep_bitrate (representations st ! i)"
  define Bp where "Bp = rep_bitrate (representations st ! (i - 1))"
  define ui where "ui = utilities st ! i"
  define up where "up = utilities st ! (i - 1)"
  define v where "v = vp st"
  define g where "g = gp st"
  have pos: "Bi > 0" "Bp > 0" "Bp - Bi \<noteq> 0" using bi bp ne by (simp_all add: Bi_def Bp_def)
  have "((v * (ui + g - 1) - b) / Bi = (v * (up + g - 1) - b) / Bp)
        \<longleftrightarrow> (v * (ui + g - 1) - b) * Bp = (v * (up + g - 1) - b) * Bi"
    using pos by (simp add: frac_eq_eq)
  also have "\<dots> \<longleftrightarrow> b * (Bp - Bi) = v * (ui * Bp - up * Bi + (g - 1) * (Bp - Bi))"
    by (auto simp: algebra_simps)
  also have "\<dots> \<longleftrightarrow> b = v * (ui * Bp - up * Bi + (g - 1) * (Bp - Bi)) / (Bp - Bi)"
    using pos by (simp add: field_simps)
  finally show ?thesis
    by (simp add: bolaScore_def Bi_def Bp_def ui_def up_def v_def g_def)
qed

text \<open>
  For positive, different bitrates the scores of \<open>i\<close> and \<open>i - 1\<close> meet at exactly one
  buffer level, and what \<^verbatim>\<open>#getMinBufferLevelForRepresentation\<close> returns is that level
  plus \<open>vp\<close>, floored at 0: its closed form has \<open>gp\<close> where the score has \<open>gp - 1\<close>.
\<close>

lemma minBuffer_is_equal_scores_level_plus_vp:
  assumes idx: "findIndex (\<lambda>r. rep_id r = rep_id rep) (representations st) = Some i"
      and i: "i > 0"
      and bi: "rep_bitrate (representations st ! i) > 0"
      and bp: "rep_bitrate (representations st ! (i - 1)) > 0"
      and ne: "rep_bitrate (representations st ! i) \<noteq> rep_bitrate (representations st ! (i - 1))"
      and eq: "bolaScore st i b = bolaScore st (i - 1) b"
  shows "getMinBufferLevelForRepresentation st rep = max 0 (b + vp st)"
proof -
  define Bi where "Bi = rep_bitrate (representations st ! i)"
  define Bp where "Bp = rep_bitrate (representations st ! (i - 1))"
  have d: "Bp - Bi \<noteq> 0" using ne by (simp add: Bi_def Bp_def)
  from eq have b: "b = vp st * (utilities st ! i * Bp - utilities st ! (i - 1) * Bi
                        + (gp st - 1) * (Bp - Bi)) / (Bp - Bi)"
    unfolding Bi_def Bp_def using equal_scores_level[OF bi bp ne] by simp
  have "vp st * (utilities st ! i * Bp - utilities st ! (i - 1) * Bi + gp st * (Bp - Bi)) / (Bp - Bi)
        = b + vp st"
    unfolding b using d by (simp add: field_simps)
  then show ?thesis
    using idx i by (simp add: getMinBufferLevelForRepresentation_def Let_def Bi_def Bp_def)
qed

lemma ln_scaled: "ln (1000 * 2 ^ k :: real) = ln 1000 + real k * ln 2"
  by (simp add: ln_mult ln_realpow)

lemmas ln_ladder =
  ln_scaled[of 1, simplified] ln_scaled[of 2, simplified] ln_scaled[of 3, simplified]
  ln_scaled[of 4, simplified] ln_scaled[of 5, simplified] ln_scaled[of 6, simplified]
  ln_scaled[of 7, simplified] ln_scaled[of 8, simplified] ln_scaled[of 9, simplified]
  ln_scaled[of 10, simplified] ln_scaled[of 11, simplified] ln_scaled[of 12, simplified]
  ln_scaled[of 13, simplified] ln_scaled[of 14, simplified] ln_scaled[of 15, simplified]
  ln_scaled[of 16, simplified]

lemma ln2_pos: "ln (2::real) > 0" by simp

lemma ladder2_init: "abrAfterInit ladder2 = defaultBufferAbr\<lparr>bolaState := Some ladder2State\<rparr>"
  by (simp add: abrAfterInit_def setRepresentations_def Assert_assert_def initBolaState_def
        ladder2_def plainRep_def defaultBufferAbr_def newBufferAbr_def bolaEnv0_def Let_def
        MINIMUM_BUFFER_PER_BITRATE_LEVEL_def ln_ladder ladder2State_def freshBolaState_def)

lemma ladder2_minBuffer:
  "getMinBufferLevelForRepresentation ladder2State (plainRep ''r1'' 2000) = 6 + 4 / ln 2"
proof -
  have raw: "4 / ln 2 * ((1 + ln 2) * 1000 - 2000 + 5 * ln 2 / 2 * (1000 - 2000)) / (1000 - 2000)
             = 6 + 4 / ln (2::real)"
    using ln2_pos by (simp add: field_simps)
  have pos: "(0::real) \<le> 6 + 4 / ln 2"
    using ln2_pos by (simp add: add_nonneg_nonneg)
  have "getMinBufferLevelForRepresentation ladder2State (plainRep ''r1'' 2000)
        = max 0 (4 / ln 2 * ((1 + ln 2) * 1000 - 2000 + 5 * ln 2 / 2 * (1000 - 2000)) / (1000 - 2000))"
    by (simp add: getMinBufferLevelForRepresentation_def ladder2State_def freshBolaState_def
          ladder2_def plainRep_def Let_def)
  then show ?thesis using raw pos by simp
qed

lemma ladder2_scores:
  "bolaScore ladder2State 1 b = (14 - b) / 2000"
  "bolaScore ladder2State 0 b = (10 - b) / 1000"
  using ln2_pos
  by (simp_all add: bolaScore_def ladder2State_def freshBolaState_def ladder2_def plainRep_def
        field_simps)

text \<open>
  C3 on the ladder of 1000 and 2000 bit/s under the default configuration. After
  initialisation \<open>vp = 4 / ln 2\<close>; the scores of the two representations are equal at a
  buffer level of 6 s, but \<^verbatim>\<open>#getMinBufferLevelForRepresentation\<close> returns
  \<open>6 + 4 / ln 2\<close> for the upper one, a level at which the two scores differ.
\<close>

theorem minBuffer_off_by_vp:
  "bolaState (abrAfterInit ladder2) = Some ladder2State
   \<and> vp ladder2State = 4 / ln 2
   \<and> getMinBufferLevelForRepresentation ladder2State (plainRep ''r1'' 2000) = 6 + 4 / ln 2
   \<and> bolaScore ladder2State 1 6 = bolaScore ladder2State 0 6
   \<and> bolaScore ladder2State 1 (6 + 4 / ln 2) \<noteq> bolaScore ladder2State 0 (6 + 4 / ln 2)"
proof (intro conjI)
  show "bolaState (abrAfterInit ladder2) = Some ladder2State"
    by (simp add: ladder2_init)
  show "vp ladder2State = 4 / ln 2"
    by (simp add: ladder2State_def freshBolaState_def)
  show "getMinBufferLevelForRepresentation ladder2State (plainRep ''r1'' 2000) = 6 + 4 / ln 2"
    by (rule ladder2_minBuffer)
  show "bolaScore ladder2State 1 6 = bolaScore ladder2State 0 6"
    unfolding ladder2_scores by simp
  show "bolaScore ladder2State 1 (6 + 4 / ln 2) \<noteq> bolaScore ladder2State 0 (6 + 4 / ln 2)"
    unfolding ladder2_scores using ln2_pos by (simp add: field_simps)
qed

lemma ladder17_init: "abrAfterInit ladder17 = defaultBufferAbr\<lparr>bolaState := Some ladder17State\<rparr>"
  using ln2_pos
  by (simp add: abrAfterInit_def setRepresentations_def Assert_assert_def initBolaState_def
        ladder17_def plainRep_def defaultBufferAbr_def newBufferAbr_def bolaEnv0_def Let_def
        MINIMUM_BUFFER_PER_BITRATE_LEVEL_def ln_ladder ladder17State_def
        freshBolaState_def field_simps)

lemma downloads_fresh:
  assumes "abrAfterInit reps = defaultBufferAbr\<lparr>bolaState := Some (freshBolaState reps us v g)\<rparr>"
  shows "abrAfterDownloads reps
         = defaultBufferAbr\<lparr>bolaState := Some (afterDownloads (freshBolaState reps us v g))\<rparr>"
  by (simp add: abrAfterDownloads_def assms startupEvents_def onPlaybackStarted_def
        clearBolaStateOnSeek_def onSegmentDownloadBegin_def onSegmentDownloadEnd_def
        afterDownloads_def freshBolaState_def startupSegment_def bolaEnvAt_def Let_def)

lemma afterDownloads_minBuffer:
  "getMinBufferLevelForRepresentation (afterDownloads st) rep
   = getMinBufferLevelForRepresentation st rep"
  by (simp add: getMinBufferLevelForRepresentation_def afterDownloads_def Let_def
           split: option.splits)

lemma ladder17_minBuffer:
  "getMinBufferLevelForRepresentation ladder17State (plainRep ''r16'' 65536000)
     = 10 + 17 * (1 + 14 * ln 2) / (8 * ln 2)"
proof -
  have raw: "17 / (8 * ln 2) * ((1 + 16 * ln 2) * 32768000 - (1 + 15 * ln 2) * 65536000
                + 80 * ln 2 / 17 * (32768000 - 65536000)) / (32768000 - 65536000)
             = 10 + 17 * (1 + 14 * ln 2) / (8 * ln (2::real))"
    using ln2_pos by (simp add: field_simps)
  have pos: "(0::real) \<le> 10 + 17 * (1 + 14 * ln 2) / (8 * ln 2)"
    using ln2_pos by (simp add: add_nonneg_nonneg)
  have "getMinBufferLevelForRepresentation ladder17State (plainRep ''r16'' 65536000)
        = max 0 (17 / (8 * ln 2) * ((1 + 16 * ln 2) * 32768000 - (1 + 15 * ln 2) * 65536000
                + 80 * ln 2 / 17 * (32768000 - 65536000)) / (32768000 - 65536000))"
    by (simp add: getMinBufferLevelForRepresentation_def ladder17State_def freshBolaState_def
          ladder17_def plainRep_def Let_def)
  then show ?thesis using raw pos by simp
qed

lemma ladder17_selected:
  "throughputLoop (100000000 * THROUGHPUT_SAFETY_FACTOR) ladder17 (plainRep ''r0'' 1000)
     = plainRep ''r16'' 65536000"
  by (simp add: ladder17_def plainRep_def THROUGHPUT_SAFETY_FACTOR_def)

lemma ladder17_downloads:
  "abrAfterDownloads ladder17 = defaultBufferAbr\<lparr>bolaState := Some (afterDownloads ladder17State)\<rparr>"
  unfolding ladder17State_def
  by (rule downloads_fresh) (use ladder17_init in \<open>simp add: ladder17State_def\<close>)

lemma ladder2_downloads:
  "abrAfterDownloads ladder2 = defaultBufferAbr\<lparr>bolaState := Some (afterDownloads ladder2State)\<rparr>"
  unfolding ladder2State_def
  by (rule downloads_fresh) (use ladder2_init in \<open>simp add: ladder2State_def\<close>)

lemma startup_choice_placeholder:
  assumes "bolaState s = Some st" "algorithmState st = STARTUP"
      and "bola_throughput env = Some t" "representations st = first # rest"
  shows "placeholderOf (snd (BufferAbr_chooseRepresentation enabled env s))
         = max 0 (getMinBufferLevelForRepresentation st
                    (throughputLoop (t * THROUGHPUT_SAFETY_FACTOR) (first # rest) first)
                  - bola_bufferLevel env)"
  using assms
  by (simp add: BufferAbr_chooseRepresentation_def chooseThroughputBasedRepresentation_def
        Let_def placeholderOf_def split: option.splits)

lemma startup_choice_result:
  assumes "bolaState s = Some st" "algorithmState st = STARTUP"
      and "bola_throughput env = Some t" "representations st = first # rest"
  shows "fst (BufferAbr_chooseRepresentation enabled env s)
         = Inr (Some (throughputLoop (t * THROUGHPUT_SAFETY_FACTOR) (first # rest) first))"
  using assms
  by (simp add: BufferAbr_chooseRepresentation_def chooseThroughputBasedRepresentation_def
        Let_def split: option.splits)

lemma choose_config:
  "bufferTarget (snd (BufferAbr_chooseRepresentation enabled env s)) = bufferTarget s
   \<and> bola_maxBufferLevel (snd (BufferAbr_chooseRepresentation enabled env s)) = bola_maxBufferLevel s"
  by (simp add: BufferAbr_chooseRepresentation_def
           split: option.splits BolaAlgorithmState.splits prod.splits)

text \<open>
  The universal bound of C4 does not survive a first choice in STARTUP. Seventeen
  representations from 1000 bit/s upwards by doubling, default configuration (cap
  90 - 60 = 30 s); playback has started, three segments have arrived and the buffer holds
  10 s, the level from which the quality selector consults the buffer strategy; the
  estimate is 100 Mbit/s. The top representation is chosen and the placeholder is set to
  its minimum buffer level less those 10 s, which is more than 30 s.
\<close>

theorem startup_placeholder_exceeds_cap:
  "modeOf (abrAfterDownloads ladder17) = Some STARTUP
   \<and> placeholderOf (abrAfterDownloads ladder17) = 0
   \<and> ladderWellFormed (abrAfterDownloads ladder17)
   \<and> minBufferLevel DEFAULT_CONFIG \<le> bola_bufferLevel tenSecondsBufferedFast
   \<and> fst (BufferAbr_chooseRepresentation True tenSecondsBufferedFast (abrAfterDownloads ladder17))
       = Inr (Some (plainRep ''r16'' 65536000))
   \<and> bola_maxBufferLevel (bola_step True tenSecondsBufferedFast Choose (abrAfterDownloads ladder17))
       - bufferTarget (bola_step True tenSecondsBufferedFast Choose (abrAfterDownloads ladder17))
       = 30
   \<and> placeholderOf (bola_step True tenSecondsBufferedFast Choose (abrAfterDownloads ladder17)) > 30"
proof -
  let ?s = "abrAfterDownloads ladder17"
  let ?st = "afterDownloads ladder17State"
  have st: "bolaState ?s = Some ?st"
    by (simp add: ladder17_downloads)
  have mode: "algorithmState ?st = STARTUP"
    by (simp add: afterDownloads_def ladder17State_def freshBolaState_def)
  have l: "plainRep ''r0'' 1000 # tl ladder17 = ladder17"
    by (simp add: ladder17_def)
  have reps: "representations ?st = plainRep ''r0'' 1000 # tl ladder17"
    unfolding l by (simp add: afterDownloads_def ladder17State_def freshBolaState_def)
  have env: "bola_throughput tenSecondsBufferedFast = Some 100000000"
    "bola_bufferLevel tenSecondsBufferedFast = 10"
    by (simp_all add: tenSecondsBufferedFast_def bolaEnvAt_def)
  have sel: "throughputLoop (100000000 * THROUGHPUT_SAFETY_FACTOR)
               (plainRep ''r0'' 1000 # tl ladder17) (plainRep ''r0'' 1000)
             = plainRep ''r16'' 65536000"
    unfolding l by (rule ladder17_selected)
  have pos: "(0::real) \<le> 17 * (1 + 14 * ln 2) / (8 * ln 2)"
    using ln2_pos by simp
  have "2 * ln (2::real) < 17"
    using ln_2_less_1 by linarith
  then have big: "(30::real) < 17 * (1 + 14 * ln 2) / (8 * ln 2)"
    using ln2_pos by (simp add: field_simps)
  have p: "placeholderOf (bola_step True tenSecondsBufferedFast Choose ?s)
           = 17 * (1 + 14 * ln 2) / (8 * ln 2)"
    unfolding bola_step.simps startup_choice_placeholder[OF st mode env(1) reps] sel env(2)
      afterDownloads_minBuffer ladder17_minBuffer
    using pos by simp
  have r: "fst (BufferAbr_chooseRepresentation True tenSecondsBufferedFast ?s)
           = Inr (Some (plainRep ''r16'' 65536000))"
    unfolding startup_choice_result[OF st mode env(1) reps] sel by simp
  have cfg: "bola_maxBufferLevel (bola_step True tenSecondsBufferedFast Choose ?s)
             - bufferTarget (bola_step True tenSecondsBufferedFast Choose ?s) = 30"
    using choose_config[of True tenSecondsBufferedFast ?s]
    by (simp add: ladder17_downloads defaultBufferAbr_def newBufferAbr_def)
  have m: "modeOf ?s = Some STARTUP"
    using st mode by (simp add: modeOf_def)
  have z: "placeholderOf ?s = 0"
    using st by (simp add: placeholderOf_def afterDownloads_def ladder17State_def freshBolaState_def)
  have d: "distinctPositiveBitrates ladder17"
    by (simp add: distinctPositiveBitrates_def ladder17_def plainRep_def)
  have w: "ladderWellFormed ?s"
    unfolding ladderWellFormed_def st using d
    by (simp add: afterDownloads_def ladder17State_def freshBolaState_def ladder17_def)
  have g: "minBufferLevel DEFAULT_CONFIG \<le> bola_bufferLevel tenSecondsBufferedFast"
    by (simp add: DEFAULT_CONFIG_def env)
  from m z w g r cfg p big show ?thesis by simp
qed

text \<open>
  In a list of different positive bitrates no division of the controller has a zero
  divisor: neighbours differ, which is the divisor of
  \<^verbatim>\<open>#getMinBufferLevelForRepresentation\<close>, and with two representations or more and a
  positive minimum buffer level \<open>gp\<close> is not zero, which is the divisor of \<open>vp\<close>.
\<close>

lemma distinct_by_index:
  assumes "distinctPositiveBitrates reps" "a < length reps" "b < length reps" "a \<noteq> b"
  shows "rep_bitrate (reps ! a) \<noteq> rep_bitrate (reps ! b)"
proof -
  have "distinct (map rep_bitrate reps)"
    using assms(1) by (simp add: distinctPositiveBitrates_def)
  then have "map rep_bitrate reps ! a \<noteq> map rep_bitrate reps ! b"
    using assms(2-4) by (simp add: distinct_conv_nth)
  then show ?thesis using assms(2,3) by simp
qed

lemma distinct_neighbours:
  assumes "distinctPositiveBitrates reps" "0 < i" "i < length reps"
  shows "rep_bitrate (reps ! (i - 1)) - rep_bitrate (reps ! i) \<noteq> 0"
  using distinct_by_index[OF assms(1), of "i - 1" i] assms(2,3) by simp

lemma gains_nonzero:
  assumes n: "2 \<le> length reps" and d: "distinctPositiveBitrates reps"
      and m: "0 < bola_minBufferLevel s"
      and i: "initBolaState enabled env s reps = Inr st"
  shows "gp st \<noteq> 0 \<and> vp st = bola_minBufferLevel s / gp st
         \<and> max 12 (bola_minBufferLevel s + MINIMUM_BUFFER_PER_BITRATE_LEVEL * real (length reps))
             / bola_minBufferLevel s - 1 \<noteq> 0"
proof -
  define B0 where "B0 = rep_bitrate (reps ! 0)"
  define Bn where "Bn = rep_bitrate (reps ! (length reps - 1))"
  have ne: "reps \<noteq> []" using n by auto
  have "\<forall>k<length reps. 0 < rep_bitrate (reps ! k)"
    using d by (simp add: distinctPositiveBitrates_def list_all_length)
  moreover have "0 < length reps" "length reps - 1 < length reps"
    using ne by simp_all
  ultimately have pos: "0 < B0" "0 < Bn"
    unfolding B0_def Bn_def by blast+
  have "B0 \<noteq> Bn"
    unfolding B0_def Bn_def using distinct_by_index[OF d, of 0 "length reps - 1"] n ne by simp
  then have l: "ln Bn - ln B0 \<noteq> 0" using pos by simp
  have "bola_minBufferLevel s
        < max 12 (bola_minBufferLevel s + MINIMUM_BUFFER_PER_BITRATE_LEVEL * real (length reps))"
    using ne by (simp add: MINIMUM_BUFFER_PER_BITRATE_LEVEL_def max_def)
  then have q: "max 12 (bola_minBufferLevel s
                  + MINIMUM_BUFFER_PER_BITRATE_LEVEL * real (length reps))
                / bola_minBufferLevel s - 1 \<noteq> 0"
    using m by (simp add: field_simps)
  have u: "map (\<lambda>u. u - map (\<lambda>r. ln (rep_bitrate r)) reps ! 0 + 1)
             (map (\<lambda>r. ln (rep_bitrate r)) reps) ! (length reps - 1) - 1 = ln Bn - ln B0"
    using ne by (simp add: B0_def Bn_def)
  show ?thesis
    using i ne l q u by (auto simp: initBolaState_def Let_def)
qed

text \<open>No operation but \<^verbatim>\<open>setRepresentations\<close> touches the list or the utilities.\<close>

lemma throughput_keeps:
  "representations (snd (chooseThroughputBasedRepresentation env st)) = representations st
   \<and> utilities (snd (chooseThroughputBasedRepresentation env st)) = utilities st"
  by (simp add: chooseThroughputBasedRepresentation_def Let_def split: option.splits list.splits)

lemma update_keeps:
  "representations (updatePlaceholderBuffer env s st) = representations st
   \<and> utilities (updatePlaceholderBuffer env s st) = utilities st"
  by (simp add: updatePlaceholderBuffer_def checkPlaceholderBufferLimit_def Let_def
           split: option.splits)

lemma bufferBased_keeps:
  "representations (snd (chooseBufferBasedRepresentation enabled env s st)) = representations st
   \<and> utilities (snd (chooseBufferBasedRepresentation enabled env s st)) = utilities st"
  by (auto simp: chooseBufferBasedRepresentation_def getRepresentationFromBufferLevel_def
        Let_def update_keeps split: sum.splits option.splits prod.splits)

lemma wellFormed_choose:
  assumes "ladderWellFormed s"
  shows "ladderWellFormed (snd (BufferAbr_chooseRepresentation enabled env s))"
proof (cases "bolaState s")
  case None
  then show ?thesis
    by (simp add: BufferAbr_chooseRepresentation_def ladderWellFormed_def)
next
  case (Some st)
  then show ?thesis
    using assms throughput_keeps[of env st] bufferBased_keeps[of enabled env s st]
    by (cases "algorithmState st")
       (auto simp: BufferAbr_chooseRepresentation_def ladderWellFormed_def split: prod.splits)
qed

lemma wellFormed_setRepresentations:
  assumes "setRepresentations enabled env reps s = Inr s'"
      and "2 \<le> length reps" "distinctPositiveBitrates reps"
  shows "ladderWellFormed s'"
  using assms
  by (auto simp: setRepresentations_def initBolaState_def Let_def ladderWellFormed_def
           split: sum.splits list.splits if_splits option.splits)

lemma wellFormed_step:
  assumes wf: "ladderWellFormed s" and ok: "opWellFormed s op"
  shows "ladderWellFormed (bola_step enabled env op s)"
proof (cases op)
  case Choose
  with wellFormed_choose[OF wf] show ?thesis by simp
next
  case (SetRepresentations reps)
  show ?thesis
  proof (cases "setRepresentations enabled env reps s")
    case (Inl e)
    with SetRepresentations wf show ?thesis by simp
  next
    case (Inr s')
    with SetRepresentations ok wellFormed_setRepresentations[OF Inr] show ?thesis
      by (simp add: opWellFormed_def)
  qed
next
  case PlaceholderUpdate
  with wf update_keeps show ?thesis
    by (auto simp: ladderWellFormed_def split: option.splits)
next
  case (SegmentDownloadBegin r)
  with wf show ?thesis
    by (auto simp: onSegmentDownloadBegin_def ladderWellFormed_def Let_def split: option.splits)
next
  case (SegmentDownloadEnd r b)
  with wf show ?thesis
    by (auto simp: onSegmentDownloadEnd_def ladderWellFormed_def Let_def split: option.splits)
next
  case PlaybackSeeked
  with wf show ?thesis
    by (auto simp: onPlaybackSeeked_def clearBolaStateOnSeek_def ladderWellFormed_def
             split: option.splits)
next
  case PlaybackStarted
  with wf show ?thesis
    by (auto simp: onPlaybackStarted_def clearBolaStateOnSeek_def ladderWellFormed_def
             split: option.splits)
next
  case BufferEmpty
  with wf show ?thesis
    by (auto simp: onBufferEmpty_def ladderWellFormed_def Let_def split: option.splits)
qed

lemma checkLimit_bounds:
  assumes "bufferTarget s \<le> bola_maxBufferLevel s" "0 \<le> placeholderBuffer st"
  shows "0 \<le> placeholderBuffer (checkPlaceholderBufferLimit s st)
         \<and> placeholderBuffer (checkPlaceholderBufferLimit s st)
             \<le> bola_maxBufferLevel s - bufferTarget s"
  using assms by (simp add: checkPlaceholderBufferLimit_def Let_def)

lemma update_bounds:
  assumes "bufferTarget s \<le> bola_maxBufferLevel s" "0 \<le> placeholderBuffer st"
  shows "0 \<le> placeholderBuffer (updatePlaceholderBuffer env s st)
         \<and> placeholderBuffer (updatePlaceholderBuffer env s st)
             \<le> bola_maxBufferLevel s - bufferTarget s"
  unfolding updatePlaceholderBuffer_def Let_def
  by (rule checkLimit_bounds[OF assms(1)]) (use assms(2) in \<open>simp split: option.splits\<close>)

lemma getRep_placeholder:
  "placeholderBuffer (snd (getRepresentationFromBufferLevel st b)) = placeholderBuffer st"
  by (simp add: getRepresentationFromBufferLevel_def Let_def)

lemma bufferBased_bounds:
  assumes cap: "bufferTarget s \<le> bola_maxBufferLevel s" and nn: "0 \<le> placeholderBuffer st"
  shows "0 \<le> placeholderBuffer (snd (chooseBufferBasedRepresentation enabled env s st))
         \<and> (fst (chooseBufferBasedRepresentation enabled env s st) \<noteq> Inl AssertionError
              \<longrightarrow> placeholderBuffer (snd (chooseBufferBasedRepresentation enabled env s st))
                    \<le> bola_maxBufferLevel s - bufferTarget s)"
proof (cases "Assert_assert enabled (currentRepresentation st \<noteq> None)")
  case (Inl e)
  then have "e = AssertionError" by (simp add: Assert_assert_def split: if_splits)
  with Inl nn show ?thesis by (simp add: chooseBufferBasedRepresentation_def)
next
  case (Inr u)
  define st1 where "st1 = updatePlaceholderBuffer env s st"
  define st2 where "st2 = snd (getRepresentationFromBufferLevel st1
                                  (bola_bufferLevel env + placeholderBuffer st1))"
  have b1: "0 \<le> placeholderBuffer st1"
           "placeholderBuffer st1 \<le> bola_maxBufferLevel s - bufferTarget s"
    using update_bounds[OF cap nn] by (simp_all add: st1_def)
  have b2: "placeholderBuffer st2 = placeholderBuffer st1"
    by (simp add: st2_def getRep_placeholder)
  show ?thesis
    using Inr b1 b2
    by (auto simp: chooseBufferBasedRepresentation_def Let_def st1_def st2_def
             split: prod.splits option.splits)
qed

lemma throughput_nonneg:
  "0 \<le> placeholderBuffer st
   \<Longrightarrow> 0 \<le> placeholderBuffer (snd (chooseThroughputBasedRepresentation env st))"
  by (simp add: chooseThroughputBasedRepresentation_def Let_def split: option.splits list.splits)

lemma setRepresentations_result:
  assumes "setRepresentations enabled env reps s = Inr s'"
  shows "0 \<le> placeholderOf s' \<and> bufferTarget s' = bufferTarget s
         \<and> bola_maxBufferLevel s' = bola_maxBufferLevel s"
  using assms
  by (auto simp: setRepresentations_def initBolaState_def Let_def placeholderOf_def
           split: sum.splits list.splits if_splits option.splits)

text \<open>
  C4, as the controller is written, for lists of different positive bitrates, on which
  the source computes with finite numbers only. Let \<open>bufferTarget \<le> maxBufferLevel\<close>
  and the placeholder be non-negative before an operation. Then it is non-negative
  afterwards, whatever the operation, the list is again one of different positive
  bitrates, and the configuration is unchanged. The cap
  \<open>placeholderBuffer \<le> maxBufferLevel - bufferTarget\<close> holds after the placeholder
  update, after a choice in STEADY_STATE that passes its assertion, after playback start
  and after buffer-empty; it is preserved by seek, by the segment lifecycle hooks and by
  a choice in ONE_BITRATE. A choice in STARTUP with a known throughput sets the
  placeholder to \<open>max 0 (minBuffer(selected) - bufferLevel)\<close> and applies no cap; of
  \<^verbatim>\<open>setRepresentations\<close> only the lower bound is stated.
\<close>

theorem placeholder_bounds_by_operation:
  assumes cap: "bufferTarget s \<le> bola_maxBufferLevel s" and nn: "0 \<le> placeholderOf s"
      and wf: "ladderWellFormed s" and ok: "opWellFormed s op"
  shows "0 \<le> placeholderOf (bola_step enabled env op s)
         \<and> ladderWellFormed (bola_step enabled env op s)
         \<and> bufferTarget (bola_step enabled env op s) = bufferTarget s
         \<and> bola_maxBufferLevel (bola_step enabled env op s) = bola_maxBufferLevel s
         \<and> ((op = PlaceholderUpdate \<or> op = PlaybackStarted \<or> op = BufferEmpty
              \<or> (op = Choose \<and> modeOf s = Some STEADY_STATE
                  \<and> fst (BufferAbr_chooseRepresentation enabled env s) \<noteq> Inl AssertionError))
             \<longrightarrow> placeholderOf (bola_step enabled env op s)
                   \<le> bola_maxBufferLevel s - bufferTarget s)
         \<and> ((op = PlaybackSeeked \<or> (\<exists>r. op = SegmentDownloadBegin r)
              \<or> (\<exists>r b. op = SegmentDownloadEnd r b)
              \<or> (op = Choose \<and> modeOf s = Some ONE_BITRATE))
             \<and> placeholderOf s \<le> bola_maxBufferLevel s - bufferTarget s
             \<longrightarrow> placeholderOf (bola_step enabled env op s)
                   \<le> bola_maxBufferLevel s - bufferTarget s)
         \<and> (\<forall>st t first rest.
               op = Choose \<and> bolaState s = Some st \<and> algorithmState st = STARTUP
               \<and> bola_throughput env = Some t \<and> representations st = first # rest
               \<longrightarrow> placeholderOf (bola_step enabled env op s)
                     = max 0 (getMinBufferLevelForRepresentation st
                                (throughputLoop (t * THROUGHPUT_SAFETY_FACTOR) (first # rest) first)
                              - bola_bufferLevel env))"
proof -
  have bounds:
    "0 \<le> placeholderOf (bola_step enabled env op s)
         \<and> bufferTarget (bola_step enabled env op s) = bufferTarget s
         \<and> bola_maxBufferLevel (bola_step enabled env op s) = bola_maxBufferLevel s
         \<and> ((op = PlaceholderUpdate \<or> op = PlaybackStarted \<or> op = BufferEmpty
              \<or> (op = Choose \<and> modeOf s = Some STEADY_STATE
                  \<and> fst (BufferAbr_chooseRepresentation enabled env s) \<noteq> Inl AssertionError))
             \<longrightarrow> placeholderOf (bola_step enabled env op s)
                   \<le> bola_maxBufferLevel s - bufferTarget s)
         \<and> ((op = PlaybackSeeked \<or> (\<exists>r. op = SegmentDownloadBegin r)
              \<or> (\<exists>r b. op = SegmentDownloadEnd r b)
              \<or> (op = Choose \<and> modeOf s = Some ONE_BITRATE))
             \<and> placeholderOf s \<le> bola_maxBufferLevel s - bufferTarget s
             \<longrightarrow> placeholderOf (bola_step enabled env op s)
                   \<le> bola_maxBufferLevel s - bufferTarget s)
         \<and> (\<forall>st t first rest.
               op = Choose \<and> bolaState s = Some st \<and> algorithmState st = STARTUP
               \<and> bola_throughput env = Some t \<and> representations st = first # rest
               \<longrightarrow> placeholderOf (bola_step enabled env op s)
                     = max 0 (getMinBufferLevelForRepresentation st
                                (throughputLoop (t * THROUGHPUT_SAFETY_FACTOR) (first # rest) first)
                              - bola_bufferLevel env))"
  proof (cases op)
    case Choose
    show ?thesis
    proof (cases "bolaState s")
      case None
      with Choose nn cap show ?thesis
        by (simp add: BufferAbr_chooseRepresentation_def placeholderOf_def modeOf_def)
    next
      case (Some st)
      have p: "0 \<le> placeholderBuffer st" using nn Some by (simp add: placeholderOf_def)
      show ?thesis
      proof (cases "algorithmState st")
        case STARTUP
        have "0 \<le> placeholderOf (bola_step enabled env op s)"
          using throughput_nonneg[OF p, of env] Choose Some STARTUP
          by (auto simp: BufferAbr_chooseRepresentation_def placeholderOf_def split: prod.splits)
        moreover have "\<forall>st' t first rest.
                 bolaState s = Some st' \<and> algorithmState st' = STARTUP
                 \<and> bola_throughput env = Some t \<and> representations st' = first # rest
                 \<longrightarrow> placeholderOf (bola_step enabled env op s)
                       = max 0 (getMinBufferLevelForRepresentation st'
                                  (throughputLoop (t * THROUGHPUT_SAFETY_FACTOR) (first # rest) first)
                                - bola_bufferLevel env)"
          using Choose by (auto simp: startup_choice_placeholder)
        ultimately show ?thesis
          using Choose Some STARTUP choose_config[of enabled env s] by (simp add: modeOf_def)
      next
        case STEADY_STATE
        have r: "BufferAbr_chooseRepresentation enabled env s
                 = (fst (chooseBufferBasedRepresentation enabled env s st),
                    s\<lparr>bolaState := Some (snd (chooseBufferBasedRepresentation enabled env s st))\<rparr>)"
          using Some STEADY_STATE
          by (simp add: BufferAbr_chooseRepresentation_def split: prod.splits)
        show ?thesis
          using bufferBased_bounds[OF cap p, of enabled env] Choose Some STEADY_STATE
          by (simp add: r placeholderOf_def modeOf_def)
      next
        case ONE_BITRATE
        with Choose Some nn cap show ?thesis
          by (simp add: BufferAbr_chooseRepresentation_def placeholderOf_def modeOf_def)
      qed
    qed
  next
    case (SetRepresentations reps)
    show ?thesis
    proof (cases "setRepresentations enabled env reps s")
      case (Inl e)
      with SetRepresentations nn show ?thesis by simp
    next
      case (Inr s')
      with SetRepresentations setRepresentations_result[OF Inr] show ?thesis by simp
    qed
  next
    case PlaceholderUpdate
    show ?thesis
    proof (cases "bolaState s")
      case None
      with PlaceholderUpdate nn cap show ?thesis by (simp add: placeholderOf_def)
    next
      case (Some st)
      have p: "0 \<le> placeholderBuffer st" using nn Some by (simp add: placeholderOf_def)
      from update_bounds[OF cap p, of env] PlaceholderUpdate Some show ?thesis
        by (simp add: placeholderOf_def)
    qed
  next
    case (SegmentDownloadBegin r)
    with nn show ?thesis
      by (auto simp: onSegmentDownloadBegin_def placeholderOf_def Let_def split: option.splits)
  next
    case (SegmentDownloadEnd r b)
    with nn show ?thesis
      by (auto simp: onSegmentDownloadEnd_def placeholderOf_def Let_def split: option.splits)
  next
    case PlaybackSeeked
    with nn cap show ?thesis
      by (auto simp: onPlaybackSeeked_def clearBolaStateOnSeek_def placeholderOf_def
               split: option.splits)
  next
    case PlaybackStarted
    with nn cap show ?thesis
      by (auto simp: onPlaybackStarted_def clearBolaStateOnSeek_def placeholderOf_def
               split: option.splits)
  next
    case BufferEmpty
    with nn cap show ?thesis
      by (auto simp: onBufferEmpty_def placeholderOf_def Let_def split: option.splits)
  qed
  from bounds wellFormed_step[OF wf ok, of enabled env] show ?thesis
    by simp
qed

text \<open>
  On the two-step ladder: the controller receives the list, three segments arrive, the
  first choice at a buffer level of 10 s sets the placeholder to \<open>4 / ln 2 - 4\<close>, and
  a placeholder update five seconds later leaves it within the cap of 30 s.
\<close>

theorem placeholder_bounds_by_operation_witness:
  "bufferTarget defaultBufferAbr \<le> bola_maxBufferLevel defaultBufferAbr
   \<and> 0 \<le> placeholderOf defaultBufferAbr
   \<and> ladderWellFormed defaultBufferAbr
   \<and> opWellFormed defaultBufferAbr (SetRepresentations ladder2)
   \<and> ladderWellFormed (bola_step True bolaEnv0 (SetRepresentations ladder2) defaultBufferAbr)
   \<and> ladderWellFormed (abrAfterDownloads ladder2)
   \<and> placeholderOf (bola_step True tenSecondsBuffered Choose (abrAfterDownloads ladder2))
       = 4 / ln 2 - 4
   \<and> placeholderOf (bola_step True (bolaEnvAt 8800 9 3000000) PlaceholderUpdate
                       (bola_step True tenSecondsBuffered Choose (abrAfterDownloads ladder2)))
       \<le> 30"
proof -
  let ?s0 = "abrAfterDownloads ladder2"
  let ?st = "afterDownloads ladder2State"
  let ?s1 = "bola_step True tenSecondsBuffered Choose ?s0"
  have cfgd: "bufferTarget defaultBufferAbr = 60" "bola_maxBufferLevel defaultBufferAbr = 90"
    "bola_minBufferLevel defaultBufferAbr = 10" "bolaState defaultBufferAbr = None"
    by (simp_all add: defaultBufferAbr_def newBufferAbr_def)
  have capd: "bufferTarget defaultBufferAbr \<le> bola_maxBufferLevel defaultBufferAbr"
    by (simp add: cfgd)
  have nnd: "0 \<le> placeholderOf defaultBufferAbr"
    by (simp add: placeholderOf_def cfgd)
  have wfd: "ladderWellFormed defaultBufferAbr"
    by (simp add: ladderWellFormed_def cfgd)
  have okd: "opWellFormed defaultBufferAbr (SetRepresentations ladder2)"
    by (simp add: opWellFormed_def cfgd distinctPositiveBitrates_def ladder2_def plainRep_def)
  note init = placeholder_bounds_by_operation[OF capd nnd wfd okd, where enabled = True and env = bolaEnv0]
  have st: "bolaState ?s0 = Some ?st"
    by (simp add: ladder2_downloads)
  have cfg0: "bufferTarget ?s0 = 60" "bola_maxBufferLevel ?s0 = 90"
    by (simp_all add: ladder2_downloads cfgd)
  have cap0: "bufferTarget ?s0 \<le> bola_maxBufferLevel ?s0"
    by (simp add: cfg0)
  have nn0: "0 \<le> placeholderOf ?s0"
    using st by (simp add: placeholderOf_def afterDownloads_def ladder2State_def freshBolaState_def)
  have wf0: "ladderWellFormed ?s0"
    using st
    by (simp add: ladderWellFormed_def afterDownloads_def ladder2State_def freshBolaState_def
          distinctPositiveBitrates_def ladder2_def plainRep_def)
  have ok0: "opWellFormed ?s0 Choose"
    by (simp add: opWellFormed_def)
  note first = placeholder_bounds_by_operation[OF cap0 nn0 wf0 ok0, where enabled = True and env = tenSecondsBuffered]
  have facts: "algorithmState ?st = STARTUP"
    "bola_throughput tenSecondsBuffered = Some 3000000"
    "representations ?st = plainRep ''r0'' 1000 # [plainRep ''r1'' 2000]"
    "bola_bufferLevel tenSecondsBuffered = 10"
    by (simp_all add: afterDownloads_def ladder2State_def freshBolaState_def
          tenSecondsBuffered_def bolaEnvAt_def ladder2_def)
  have sel: "throughputLoop (3000000 * THROUGHPUT_SAFETY_FACTOR)
               (plainRep ''r0'' 1000 # [plainRep ''r1'' 2000]) (plainRep ''r0'' 1000)
             = plainRep ''r1'' 2000"
    by (simp add: plainRep_def THROUGHPUT_SAFETY_FACTOR_def)
  have pos: "(0::real) \<le> 4 / ln 2 - 4"
    using ln2_pos ln_2_less_1 by (simp add: field_simps)
  from first st facts
  have "placeholderOf ?s1
        = max 0 (getMinBufferLevelForRepresentation ?st
                   (throughputLoop (3000000 * THROUGHPUT_SAFETY_FACTOR)
                      (plainRep ''r0'' 1000 # [plainRep ''r1'' 2000]) (plainRep ''r0'' 1000))
                 - 10)"
    by metis
  then have choice: "placeholderOf ?s1 = 4 / ln 2 - 4"
    unfolding sel afterDownloads_minBuffer ladder2_minBuffer using pos by simp
  have cap1: "bufferTarget ?s1 \<le> bola_maxBufferLevel ?s1"
    and cfg1: "bola_maxBufferLevel ?s1 - bufferTarget ?s1 = 30"
    and nn1: "0 \<le> placeholderOf ?s1"
    and wf1: "ladderWellFormed ?s1"
    using first cfg0 by simp_all
  have ok1: "opWellFormed ?s1 PlaceholderUpdate"
    by (simp add: opWellFormed_def)
  from placeholder_bounds_by_operation[OF cap1 nn1 wf1 ok1, where enabled = True and env = "bolaEnvAt 8800 9 3000000"]
  have "placeholderOf (bola_step True (bolaEnvAt 8800 9 3000000) PlaceholderUpdate ?s1)
        \<le> bola_maxBufferLevel ?s1 - bufferTarget ?s1"
    by simp
  then have upd: "placeholderOf (bola_step True (bolaEnvAt 8800 9 3000000) PlaceholderUpdate ?s1) \<le> 30"
    using cfg1 by simp
  from capd nnd wfd okd init wf0 choice upd show ?thesis by simp
qed

end
